theory Spec2Isabelle
  imports Complex_Main "HOL-Library.Sublist" "HOL-Library.List_Lexorder" "HOL-Library.Char_ord"
begin

section \<open>JavaScript string primitives\<close>

text \<open>
  JavaScript strings are modelled as \<open>string\<close>. Characters outside ASCII are carried as
  their UTF-8 bytes; case mapping and the whitespace class are those of ASCII, which is
  what the literals of the components below use.
\<close>

definition is_digit :: "char \<Rightarrow> bool" where
  \<comment> \<open>the regular-expression class \<open>\d\<close>\<close>
  "is_digit c = (c \<in> set ''0123456789'')"

definition is_space :: "char \<Rightarrow> bool" where
  \<comment> \<open>the regular-expression class \<open>\s\<close>, also what \<open>trim\<close> strips\<close>
  "is_space c = (c \<in> set [CHR '' '', CHR 0x09, CHR 0x0A, CHR 0x0B, CHR 0x0C, CHR 0x0D])"

definition lower_char :: "char \<Rightarrow> char" where
  "lower_char c =
     (case map_of (zip ''ABCDEFGHIJKLMNOPQRSTUVWXYZ'' ''abcdefghijklmnopqrstuvwxyz'') c of
        Some d \<Rightarrow> d
      | None \<Rightarrow> c)"

definition toLowerCase :: "string \<Rightarrow> string" where
  "toLowerCase s = map lower_char s"

definition trim :: "string \<Rightarrow> string" where
  "trim s = rev (dropWhile is_space (rev (dropWhile is_space s)))"

definition startsWith :: "string \<Rightarrow> string \<Rightarrow> bool" where
  "startsWith s p = (take (length p) s = p)"

fun str_includes :: "string \<Rightarrow> string \<Rightarrow> bool" where
  "str_includes [] t = (t = [])"
| "str_includes (c # cs) t = (startsWith (c # cs) t \<or> str_includes cs t)"

fun split_on :: "char \<Rightarrow> string \<Rightarrow> string list" where
  \<comment> \<open>\<open>s.split(sep)\<close> for a one-character separator\<close>
  "split_on sep [] = [[]]"
| "split_on sep (c # cs) =
     (if c = sep then [] # split_on sep cs
      else (case split_on sep cs of
              [] \<Rightarrow> [[c]]
            | w # ws \<Rightarrow> (c # w) # ws))"

fun join :: "string \<Rightarrow> string list \<Rightarrow> string" where
  "join sep [] = []"
| "join sep [x] = x"
| "join sep (x # y # ys) = x @ sep @ join sep (y # ys)"

definition digit_char :: "nat \<Rightarrow> char" where
  "digit_char d = ''0123456789'' ! (d mod 10)"

fun string_of_nat :: "nat \<Rightarrow> string" where
  "string_of_nat n =
     (if n < 10 then [digit_char n] else string_of_nat (n div 10) @ [digit_char (n mod 10)])"

declare string_of_nat.simps [simp del]

definition string_of_int :: "int \<Rightarrow> string" where
  \<comment> \<open>\<open>String(n)\<close> for an integral number\<close>
  "string_of_int i = (if i < 0 then CHR ''-'' # string_of_nat (nat (- i)) else string_of_nat (nat i))"

definition digit_val :: "char \<Rightarrow> nat" where
  "digit_val c = (case map_of (zip ''0123456789'' [0, 1, 2, 3, 4, 5, 6, 7, 8, 9]) c of
                    Some d \<Rightarrow> d
                  | None \<Rightarrow> 0)"

definition nat_of_digits :: "string \<Rightarrow> nat" where
  "nat_of_digits ds = foldl (\<lambda>acc c. 10 * acc + digit_val c) 0 ds"

definition Number_of_string :: "string \<Rightarrow> int option" where
  \<comment> \<open>\<open>Number(s)\<close> on the strings this program stores and reads back: surrounding
      whitespace is ignored, the empty string is 0, an optionally signed run of decimal
      digits is its value. \<open>None\<close> is NaN. Other numeric literal forms (fractions,
      exponents, radix prefixes, Infinity) are never written by the program and are
      not covered: theorems below state the parsed value as a hypothesis.\<close>
  "Number_of_string s =
     (let t = trim s in
      if t = [] then Some 0
      else if list_all is_digit t then Some (int (nat_of_digits t))
      else (case t of
              c # ds \<Rightarrow>
                if ds \<noteq> [] \<and> list_all is_digit ds \<and> c = CHR ''-'' then Some (- int (nat_of_digits ds))
                else if ds \<noteq> [] \<and> list_all is_digit ds \<and> c = CHR ''+'' then Some (int (nat_of_digits ds))
                else None
            | [] \<Rightarrow> None))"

definition ceil_div :: "int \<Rightarrow> int \<Rightarrow> int" where
  \<comment> \<open>\<open>Math.ceil(a / b)\<close> for integral \<open>a\<close> and positive \<open>b\<close>\<close>
  "ceil_div a b = - ((- a) div b)"

section \<open>Public listings page (component Listings)\<close>

subsection \<open>Contact modal\<close>

fun strip_non_digits :: "string \<Rightarrow> string" where
  \<comment> \<open>\<open>val.replace(/\D/g, '')\<close>: every character matching \<open>\D\<close> is replaced by nothing\<close>
  "strip_non_digits [] = []"
| "strip_non_digits (c # cs) = (if \<not> is_digit c then strip_non_digits cs else c # strip_non_digits cs)"

definition isValidPhone :: "string \<Rightarrow> bool" where
  "isValidPhone val = (length (strip_non_digits val) = 10)"

record contact_form =
  cf_name :: string
  cf_email :: string
  cf_phone :: string
  cf_message :: string
  cf_website :: string

record listing_ref =
  lr_id :: string
  lr_title :: "string option"

record contact_payload =
  cp_name :: string
  cp_email :: string
  cp_phone :: string
  cp_listing_id :: string
  cp_property_id :: string
  cp_message :: string

datatype contact_request = ContactPost string contact_payload

text \<open>
  What the \<open>catch\<close> block of \<open>submitContact\<close> reads of a rejected request:
  \<open>err.message\<close> and \<open>err.response.data\<close>. Where the source calls \<open>JSON.stringify\<close>,
  the value carries the rendered text.
\<close>

datatype err_detail =
    DetailString string
  | DetailArray "(string option \<times> string) list"
  | DetailObject "string option" string
  | DetailOther

datatype err_data =
    DataString string
  | DataObject "err_detail option" "string option" "string option"

record contact_error =
  ce_message :: "string option"
  ce_data :: "err_data option"

definition or_else :: "string option \<Rightarrow> string \<Rightarrow> string" where
  \<comment> \<open>\<open>x || d\<close> for an optional string \<open>x\<close>: absent and empty are falsy\<close>
  "or_else x d = (case x of None \<Rightarrow> d | Some s \<Rightarrow> if s = [] then d else s)"

definition truthy_detail :: "err_detail option \<Rightarrow> err_detail option" where
  "truthy_detail d = (case d of Some (DetailString []) \<Rightarrow> None | _ \<Rightarrow> d)"

definition contact_error_message :: "contact_error \<Rightarrow> string" where
  \<comment> \<open>\<open>DataObject detail message json\<close>: an object with its \<open>detail\<close> and \<open>message\<close>
      properties and its \<open>JSON.stringify\<close> text (\<open>None\<close> when that throws)\<close>
  "contact_error_message err =
     (let msg = or_else (ce_message err) ''Failed to submit your inquiry.'' in
      case ce_data err of
        None \<Rightarrow> msg
      | Some (DataString s) \<Rightarrow> if s = [] then msg else s
      | Some (DataObject d m js) \<Rightarrow>
          (case truthy_detail d of
             Some (DetailString s) \<Rightarrow> s
           | Some (DetailArray ds) \<Rightarrow> join ''; '' (map (\<lambda>(m', js'). or_else m' js') ds)
           | Some (DetailObject m' js') \<Rightarrow> or_else m' js'
           | Some DetailOther \<Rightarrow> msg
           | None \<Rightarrow>
               if or_else m [] \<noteq> [] then or_else m []
               else (case js of Some j \<Rightarrow> j | None \<Rightarrow> msg)))"

record contact_state =
  contactListing :: "listing_ref option"
  contactForm :: contact_form
  contactSubmitting :: bool
  contactError :: string
  contactSuccess :: string
  closeTimerSet :: bool
  localStorage :: "string \<rightharpoonup> string"

definition RATE_KEY :: string where
  "RATE_KEY = ''contact_last_submit''"

definition RATE_LIMIT_MS :: int where
  "RATE_LIMIT_MS = 60000"

definition last_submit :: "(string \<rightharpoonup> string) \<Rightarrow> int option" where
  \<comment> \<open>\<open>Number(localStorage.getItem(RATE_KEY) || 0)\<close>; \<open>None\<close> is NaN\<close>
  "last_submit store =
     (case store RATE_KEY of
        None \<Rightarrow> Some 0
      | Some v \<Rightarrow> if v = [] then Some 0 else Number_of_string v)"

definition rate_limited :: "int \<Rightarrow> int option \<Rightarrow> bool" where
  \<comment> \<open>\<open>now - last < RATE_LIMIT_MS\<close>; every comparison with NaN is false\<close>
  "rate_limited now lastv = (case lastv of None \<Rightarrow> False | Some l \<Rightarrow> now - l < RATE_LIMIT_MS)"

definition wait_message :: "int \<Rightarrow> int option \<Rightarrow> string" where
  \<comment> \<open>\<open>secs = Math.ceil((RATE_LIMIT_MS - (now - last)) / 1000)\<close> in the template\<close>
  "wait_message now lastv =
     (case lastv of
        None \<Rightarrow> ''Please wait NaNs before submitting again.''
      | Some l \<Rightarrow>
          (let secs = ceil_div (RATE_LIMIT_MS - (now - l)) 1000 in
           ''Please wait '' @ string_of_int secs @ ''s before submitting again.''))"

definition inquiry_message :: "listing_ref \<Rightarrow> string" where
  "inquiry_message l =
     ''Inquiry for listing '' @ lr_id l @
       (case lr_title l of
          None \<Rightarrow> []
        | Some t \<Rightarrow> if t = [] then [] else '': '' @ t)"

text \<open>
  \<open>submitContact\<close>. The arguments beside the state are what the environment supplies:
  \<open>now\<close> is the first \<open>Date.now()\<close>, \<open>post_result\<close> the outcome of \<open>api.post\<close>,
  \<open>now2\<close> the second \<open>Date.now()\<close>, and \<open>set_ok\<close> whether \<open>localStorage.setItem\<close>
  returns rather than throws. The result is the new state and the requests sent.
\<close>

definition submitContact ::
  "int \<Rightarrow> (contact_error + unit) \<Rightarrow> int \<Rightarrow> bool \<Rightarrow> contact_state \<Rightarrow> contact_state \<times> contact_request list"
where
  "submitContact now post_result now2 set_ok st =
     (case contactListing st of
        None \<Rightarrow> (st, [])
      | Some listing \<Rightarrow>
          let st1 = st\<lparr>contactSubmitting := True, contactError := [], contactSuccess := []\<rparr>;
              lastv = last_submit (localStorage st1)
          in
          if rate_limited now lastv then
            (st1\<lparr>contactError := wait_message now lastv, contactSubmitting := False\<rparr>, [])
          else
            let name = trim (cf_name (contactForm st1));
                email = trim (cf_email (contactForm st1));
                phone = trim (cf_phone (contactForm st1))
            in
            if name = [] \<or> email = [] \<or> phone = [] then
              (st1\<lparr>contactError := ''Please fill Name, Email and Contact No.'',
                    contactSubmitting := False\<rparr>, [])
            else if \<not> isValidPhone phone then
              (st1\<lparr>contactError := ''Please enter a valid contact number (10-13 digits).'',
                    contactSubmitting := False\<rparr>, [])
            else if trim (cf_website (contactForm st1)) \<noteq> [] then
              (st1\<lparr>contactError := ''Submission blocked as spam.'',
                    contactSubmitting := False\<rparr>, [])
            else
              let payload = \<lparr>cp_name = name, cp_email = email, cp_phone = phone,
                             cp_listing_id = lr_id listing, cp_property_id = lr_id listing,
                             cp_message = inquiry_message listing\<rparr>;
                  req = ContactPost ''/contact/submit'' payload
              in
              (case post_result of
                 Inr _ \<Rightarrow>
                   (st1\<lparr>contactSuccess := ''Thanks for showing the interest, we will reach out to you soon.'',
                         closeTimerSet := True,
                         localStorage := (if set_ok
                                          then (localStorage st1)(RATE_KEY \<mapsto> string_of_int now2)
                                          else localStorage st1),
                         contactSubmitting := False\<rparr>, [req])
               | Inl err \<Rightarrow>
                   (st1\<lparr>contactError := contact_error_message err, contactSubmitting := False\<rparr>, [req])))"

subsection \<open>Properties, filters and option catalogs\<close>

text \<open>
  The fields of a Property record that this component reads. A field the backend may
  leave out, or send as \<open>null\<close>, is an option. Prices are JSON numbers, modelled as reals
  (the comparisons of the price buckets are exact on them); \<open>PriceOther r\<close> is any value
  whose \<open>typeof\<close> is not \<open>number\<close>, carrying \<open>Number(value)\<close>, with \<open>None\<close> for NaN.
\<close>

datatype price_field = PriceNumber real | PriceOther "real option"

record address =
  city :: "string option"

record property =
  prop_id :: string
  prop_title :: "string option"
  property_type :: "string option"
  price :: price_field
  prop_address :: "address option"
  features :: "string list option"
  images :: "string list option"

record filters =
  location :: string
  nearby :: string
  priceRange :: string
  roomType :: string
  restrictions :: string

definition rupee :: string where
  \<comment> \<open>the rupee sign U+20B9, in UTF-8\<close>
  "rupee = [CHR 0xE2, CHR 0x82, CHR 0xB9]"

definition PRICE_RANGES :: "string list" where
  "PRICE_RANGES =
     [''Under '' @ rupee @ ''10,000'',
      rupee @ ''10,000 - '' @ rupee @ ''20,000'',
      rupee @ ''20,000 - '' @ rupee @ ''30,000'',
      rupee @ ''30,000 - '' @ rupee @ ''50,000'',
      rupee @ ''50,000 - '' @ rupee @ ''75,000'',
      ''Above '' @ rupee @ ''75,000'']"

definition UI_ROOM_TYPES :: "string list" where
  "UI_ROOM_TYPES = [''Apartment'', ''House'', ''Condo'']"

definition mapRoomTypeToBackend :: "string \<Rightarrow> string option" where
  "mapRoomTypeToBackend val =
     (let v = toLowerCase val in
      if v = ''apartment'' then Some ''apartment''
      else if v = ''house'' then Some ''house''
      else if v = ''condo'' then Some ''condo''
      else None)"

definition truthy_strings :: "string option list \<Rightarrow> string list" where
  \<comment> \<open>\<open>.filter(Boolean)\<close> on optional strings\<close>
  "truthy_strings xs = concat (map (\<lambda>x. case x of None \<Rightarrow> [] | Some s \<Rightarrow> if s = [] then [] else [s]) xs)"

definition sorted_unique :: "string list \<Rightarrow> string list" where
  \<comment> \<open>\<open>Array.from(new Set(xs)).sort()\<close>\<close>
  "sorted_unique xs = sort (remdups xs)"

definition tag_matches :: "string \<Rightarrow> string \<Rightarrow> bool" where
  \<comment> \<open>the test \<open>/^\s*word\s*:/i\<close> for a lower-case \<open>word\<close>\<close>
  "tag_matches word f =
     (let r = dropWhile is_space f in
      startsWith (toLowerCase r) word \<and>
      (case dropWhile is_space (drop (length word) r) of
         [] \<Rightarrow> False
       | c # _ \<Rightarrow> c = CHR '':''))"

definition after_first_colon :: "string \<Rightarrow> string" where
  \<comment> \<open>\<open>f.split(':').slice(1).join(':')\<close>\<close>
  "after_first_colon f = join '':'' (drop 1 (split_on CHR '':'' f))"

definition featuresRaw :: "property list \<Rightarrow> string list" where
  "featuresRaw arr = concat (map (\<lambda>it. case features it of None \<Rightarrow> [] | Some fs \<Rightarrow> fs) arr)"

definition catalog_types :: "property list \<Rightarrow> string list" where
  "catalog_types arr = sorted_unique (truthy_strings (map property_type arr))"

definition catalog_nearby :: "property list \<Rightarrow> string list" where
  "catalog_nearby arr =
     sorted_unique
       (filter (\<lambda>s. s \<noteq> [])
          (map (\<lambda>f. trim (after_first_colon f))
             (filter (tag_matches ''nearby'') (featuresRaw arr))))"

definition catalog_locations :: "property list \<Rightarrow> string list" where
  "catalog_locations arr =
     sorted_unique
       (truthy_strings (map (\<lambda>it. case prop_address it of None \<Rightarrow> None | Some a \<Rightarrow> city a) arr))"

definition catalog_restrictions :: "property list \<Rightarrow> string list" where
  "catalog_restrictions arr =
     sorted_unique
       (filter (\<lambda>s. s \<noteq> [])
          (map trim
             (filter (\<lambda>f. \<not> (tag_matches ''nearby'' f \<or> tag_matches ''location'' f))
                (featuresRaw arr))))"

text \<open>
  The state of the component that the functions below read or write. The effects are
  modelled at the point where their request has been answered; the \<open>cancelled\<close> flag
  of an effect that is re-run or unmounted meanwhile, and console output, are left out.
\<close>

record listings_state =
  ls_filters :: filters
  listings :: "property list"
  locationOptions :: "string list"
  nearbyOptions :: "string list"
  typeOptions :: "string list"
  featureOptions :: "string list"
  loading :: bool
  ls_error :: string
  page :: nat

definition initial_listings_state :: listings_state where
  "initial_listings_state =
     \<lparr>ls_filters = \<lparr>location = [], nearby = [], priceRange = [], roomType = [], restrictions = []\<rparr>,
      listings = [], locationOptions = [], nearbyOptions = [], typeOptions = [],
      featureOptions = [], loading = True, ls_error = [], page = 1\<rparr>"

text \<open>
  A response of \<open>api.get\<close>: \<open>Inl ()\<close> is a rejected request, \<open>Inr None\<close> a body that is
  not an array, \<open>Inr (Some arr)\<close> an array of properties.
\<close>

type_synonym get_result = "unit + property list option"

definition data_array :: "property list option \<Rightarrow> property list" where
  \<comment> \<open>\<open>Array.isArray(res.data) ? res.data : []\<close>\<close>
  "data_array d = (case d of None \<Rightarrow> [] | Some arr \<Rightarrow> arr)"

definition catalogEffect :: "get_result \<Rightarrow> listings_state \<Rightarrow> listings_state" where
  \<comment> \<open>the effect with the empty dependency list: it runs once, when the component mounts,
      on \<open>GET /properties/\<close>\<close>
  "catalogEffect res st =
     (case res of
        Inl _ \<Rightarrow> st
      | Inr d \<Rightarrow>
          (let arr = data_array d in
           st\<lparr>typeOptions := catalog_types arr,
              nearbyOptions := catalog_nearby arr,
              locationOptions := catalog_locations arr,
              featureOptions := catalog_restrictions arr\<rparr>))"

record search_params =
  min_price :: "nat option"
  max_price :: "nat option"
  sp_city :: "string option"
  property_types :: "string option"
  sp_features :: "string list option"

definition no_params :: search_params where
  "no_params = \<lparr>min_price = None, max_price = None, sp_city = None, property_types = None, sp_features = None\<rparr>"

definition price_params :: "string \<Rightarrow> search_params \<Rightarrow> search_params" where
  \<comment> \<open>\<open>Object.assign(params, map[filters.priceRange] || {})\<close>\<close>
  "price_params label ps =
     (if label = ''Under '' @ rupee @ ''10,000'' then ps\<lparr>max_price := Some 10000\<rparr>
      else if label = rupee @ ''10,000 - '' @ rupee @ ''20,000'' then ps\<lparr>min_price := Some 10000, max_price := Some 20000\<rparr>
      else if label = rupee @ ''20,000 - '' @ rupee @ ''30,000'' then ps\<lparr>min_price := Some 20000, max_price := Some 30000\<rparr>
      else if label = rupee @ ''30,000 - '' @ rupee @ ''50,000'' then ps\<lparr>min_price := Some 30000, max_price := Some 50000\<rparr>
      else if label = rupee @ ''50,000 - '' @ rupee @ ''75,000'' then ps\<lparr>min_price := Some 50000, max_price := Some 75000\<rparr>
      else if label = ''Above '' @ rupee @ ''75,000'' then ps\<lparr>min_price := Some 75000\<rparr>
      else ps)"

definition build_params :: "filters \<Rightarrow> search_params" where
  "build_params f =
     (let ps = no_params;
          ps = (if priceRange f \<noteq> [] then price_params (priceRange f) ps else ps);
          ps = (if location f \<noteq> [] \<and> trim (location f) \<noteq> [] then ps\<lparr>sp_city := Some (trim (location f))\<rparr> else ps);
          ps = (if roomType f \<noteq> [] \<and> trim (roomType f) \<noteq> []
                then (case mapRoomTypeToBackend (trim (roomType f)) of
                        Some mapped \<Rightarrow> ps\<lparr>property_types := Some mapped\<rparr>
                      | None \<Rightarrow> ps)
                else ps);
          ps = (if nearby f \<noteq> [] then ps\<lparr>sp_features := Some [''Nearby: '' @ nearby f]\<rparr> else ps)
      in ps)"

definition fetchProperties :: "get_result \<Rightarrow> get_result \<Rightarrow> listings_state \<Rightarrow> listings_state" where
  \<comment> \<open>\<open>search_res\<close> answers \<open>GET /properties/search\<close>, \<open>all_res\<close> answers \<open>GET /properties/\<close>\<close>
  "fetchProperties search_res all_res st =
     (let st1 = st\<lparr>loading := True, ls_error := []\<rparr>;
          useSearch = (build_params (ls_filters st1) \<noteq> no_params);
          res = (if useSearch
                 then (case search_res of Inr d \<Rightarrow> Inr d | Inl _ \<Rightarrow> all_res)
                 else all_res)
      in case res of
           Inr d \<Rightarrow> st1\<lparr>listings := data_array d, loading := False\<rparr>
         | Inl _ \<Rightarrow> st1\<lparr>ls_error := ''Failed to load properties. Please try again.'',
                          listings := [], loading := False\<rparr>)"

definition setFilters :: "filters \<Rightarrow> get_result \<Rightarrow> get_result \<Rightarrow> listings_state \<Rightarrow> listings_state" where
  \<comment> \<open>a change of the filter selection, followed by the two effects that depend on the
      filter fields: the page reset and \<open>fetchProperties\<close>\<close>
  "setFilters f search_res all_res st =
     (if f = ls_filters st then st
      else fetchProperties search_res all_res (st\<lparr>ls_filters := f, page := 1\<rparr>))"

definition clearFilters :: "get_result \<Rightarrow> get_result \<Rightarrow> listings_state \<Rightarrow> listings_state" where
  "clearFilters search_res all_res st =
     setFilters \<lparr>location = [], nearby = [], priceRange = [], roomType = [], restrictions = []\<rparr>
       search_res all_res st"

datatype filter_event =
    SetFilters filters get_result get_result
  | ClearFilters get_result get_result

fun filter_step :: "listings_state \<Rightarrow> filter_event \<Rightarrow> listings_state" where
  "filter_step st (SetFilters f sr ar) = setFilters f sr ar st"
| "filter_step st (ClearFilters sr ar) = clearFilters sr ar st"

definition run_filter_events :: "filter_event list \<Rightarrow> listings_state \<Rightarrow> listings_state" where
  "run_filter_events es st = foldl filter_step st es"

subsection \<open>Client-side filtering\<close>

definition numeric_price :: "property \<Rightarrow> real" where
  \<comment> \<open>\<open>typeof it.price === 'number' ? it.price : Number(it.price) || 0\<close>\<close>
  "numeric_price it =
     (case price it of
        PriceNumber n \<Rightarrow> n
      | PriceOther None \<Rightarrow> 0
      | PriceOther (Some r) \<Rightarrow> if r = 0 then 0 else r)"

definition price_bucket :: "string \<Rightarrow> (real \<Rightarrow> bool) option" where
  \<comment> \<open>the lookup \<open>map[filters.priceRange]\<close> among the six own keys of the object literal\<close>
  "price_bucket label =
     (if label = ''Under '' @ rupee @ ''10,000'' then Some (\<lambda>p. p < 10000)
      else if label = rupee @ ''10,000 - '' @ rupee @ ''20,000'' then Some (\<lambda>p. p \<ge> 10000 \<and> p \<le> 20000)
      else if label = rupee @ ''20,000 - '' @ rupee @ ''30,000'' then Some (\<lambda>p. p \<ge> 20000 \<and> p \<le> 30000)
      else if label = rupee @ ''30,000 - '' @ rupee @ ''50,000'' then Some (\<lambda>p. p \<ge> 30000 \<and> p \<le> 50000)
      else if label = rupee @ ''50,000 - '' @ rupee @ ''75,000'' then Some (\<lambda>p. p \<ge> 50000 \<and> p \<le> 75000)
      else if label = ''Above '' @ rupee @ ''75,000'' then Some (\<lambda>p. p > 75000)
      else None)"

definition price_stage :: "string \<Rightarrow> property list \<Rightarrow> property list" where
  "price_stage pr arr =
     (if pr \<noteq> [] then
        (case price_bucket pr of
           Some priceFilter \<Rightarrow> filter (\<lambda>it. priceFilter (numeric_price it)) arr
         | None \<Rightarrow> arr)
      else arr)"

definition room_matches :: "string \<Rightarrow> property \<Rightarrow> bool" where
  "room_matches rt it =
     (let propertyType = toLowerCase (case property_type it of None \<Rightarrow> [] | Some t \<Rightarrow> t) in
      if rt = ''apartment'' then propertyType = ''apartment''
      else if rt = ''house'' then propertyType = ''house''
      else if rt = ''condo'' then propertyType = ''condo''
      else False)"

definition room_stage :: "string \<Rightarrow> property list \<Rightarrow> property list" where
  "room_stage rt arr =
     (if rt \<noteq> [] \<and> trim rt \<noteq> [] then filter (room_matches (toLowerCase (trim rt))) arr else arr)"

definition city_of :: "property \<Rightarrow> string" where
  \<comment> \<open>\<open>it.address?.city || ''\<close>\<close>
  "city_of it = (case prop_address it of None \<Rightarrow> [] | Some a \<Rightarrow> (case city a of None \<Rightarrow> [] | Some c \<Rightarrow> c))"

definition location_matches :: "string \<Rightarrow> property \<Rightarrow> bool" where
  "location_matches loc it = str_includes (toLowerCase (city_of it)) loc"

definition location_stage :: "string \<Rightarrow> property list \<Rightarrow> property list" where
  "location_stage loc arr =
     (if loc \<noteq> [] \<and> trim loc \<noteq> [] then filter (location_matches (toLowerCase (trim loc))) arr else arr)"

definition restriction_matches :: "string \<Rightarrow> property \<Rightarrow> bool" where
  "restriction_matches r it =
     (case features it of
        None \<Rightarrow> False
      | Some fs \<Rightarrow> list_ex (\<lambda>f. toLowerCase f = r) fs)"

definition restrictions_stage :: "string \<Rightarrow> property list \<Rightarrow> property list" where
  "restrictions_stage rs arr =
     (if rs \<noteq> [] \<and> trim rs \<noteq> [] then filter (restriction_matches (toLowerCase (trim rs))) arr else arr)"

definition nearby_feature :: "string \<Rightarrow> string \<Rightarrow> bool" where
  \<comment> \<open>the callback of \<open>some\<close>: \<open>s.startsWith('nearby:') && s.includes(nb)\<close>\<close>
  "nearby_feature nb f = (let s = toLowerCase f in startsWith s ''nearby:'' \<and> str_includes s nb)"

definition nearby_matches :: "string \<Rightarrow> property \<Rightarrow> bool" where
  "nearby_matches nb it =
     (case features it of
        None \<Rightarrow> False
      | Some fs \<Rightarrow> list_ex (nearby_feature nb) fs)"

definition nearby_stage :: "string \<Rightarrow> property list \<Rightarrow> property list" where
  "nearby_stage nb arr =
     (if nb \<noteq> [] \<and> trim nb \<noteq> [] then filter (nearby_matches (toLowerCase (trim nb))) arr else arr)"

definition filteredListings :: "filters \<Rightarrow> property list \<Rightarrow> property list" where
  "filteredListings f ls =
     (let arr = ls;
          arr = price_stage (priceRange f) arr;
          arr = room_stage (roomType f) arr;
          arr = location_stage (location f) arr;
          arr = restrictions_stage (restrictions f) arr;
          arr = nearby_stage (nearby f) arr
      in arr)"

section \<open>Admin components\<close>

subsection \<open>Files and staged images\<close>

text \<open>
  A selected file with the two properties the handlers test, and a staged image: the
  file with its object URL and its random id. Releasing object URLs
  (\<open>URL.revokeObjectURL\<close>) is not modelled.
\<close>

record image_file =
  file_name :: string
  file_type :: string
  file_size :: nat

record staged_image =
  si_file :: image_file
  si_preview :: string
  si_id :: string

definition MAX_IMAGE_BYTES :: nat where
  "MAX_IMAGE_BYTES = 10 * 1024 * 1024"

definition stage_files :: "(nat \<Rightarrow> string \<times> string) \<Rightarrow> image_file list \<Rightarrow> staged_image list" where
  \<comment> \<open>\<open>validFiles.map(file => ({file, preview: URL.createObjectURL(file), id: ...}))\<close>;
      \<open>fresh i\<close> is the object URL and the random id drawn for the \<open>i\<close>-th file\<close>
  "stage_files fresh fs =
     map (\<lambda>(i, f). \<lparr>si_file = f, si_preview = fst (fresh i), si_id = snd (fresh i)\<rparr>) (enumerate 0 fs)"

text \<open>
  What the admin components read of a rejected request: \<open>e.response.data.detail\<close> (as the
  text \<open>String\<close> gives), \<open>e.response.data.message\<close>, \<open>e.message\<close> and \<open>e.response.status\<close>.
\<close>

record admin_error =
  ae_detail :: "string option"
  ae_data_message :: "string option"
  ae_message :: "string option"
  ae_status :: "nat option"

subsection \<open>New listing form (component AdminNewListing)\<close>

definition UI_PROPERTY_TYPES :: "string list" where
  "UI_PROPERTY_TYPES = [''Flat'', ''Apartment'', ''Condo'']"

definition UI_SIZES :: "string list" where
  "UI_SIZES = [''1 BHK'', ''2 BHK'', ''3 BHK'', ''4 BHK'', ''5 BHK'']"

definition UI_STATUSES :: "string list" where
  "UI_STATUSES = [''Available'', ''Not Available'', ''off_market'']"

definition mapPropertyTypeToBackend :: "string \<Rightarrow> string" where
  "mapPropertyTypeToBackend val =
     (let v = toLowerCase val in
      if v = ''flat'' \<or> v = ''apartment'' then ''apartment''
      else if v = ''condo'' then ''condo''
      else ''apartment'')"

definition mapStatusToBackend :: "string \<Rightarrow> string" where
  "mapStatusToBackend val =
     (let v = toLowerCase val in
      if v = ''available'' then ''available''
      else if v = ''not available'' then ''off_market''
      else if v = ''off_market'' then ''off_market''
      else ''available'')"

definition bedroomsFromSize :: "string \<Rightarrow> nat option" where
  \<comment> \<open>the match of \<open>/^\s*(\d)\s*bhk\s*$/i\<close>; \<open>None\<close> is the empty string returned otherwise\<close>
  "bedroomsFromSize sz =
     (case dropWhile is_space sz of
        [] \<Rightarrow> None
      | d # r \<Rightarrow>
          if is_digit d then
            (let r2 = dropWhile is_space r in
             if toLowerCase (take 3 r2) = ''bhk'' \<and> list_all is_space (drop 3 r2)
             then Some (digit_val d) else None)
          else None)"

text \<open>
  A numeric field of the payload. \<open>NumberOf s\<close> is \<open>Number(s)\<close> of the text \<open>s\<close> typed
  into the form, \<open>Num n\<close> a number computed by the component, \<open>Null\<close> is \<open>null\<close>.
\<close>

datatype num_field = NumberOf string | Num nat | Null

record form_address =
  street :: string
  fa_city :: string
  state :: string
  zip_code :: string
  country :: string

record coordinates =
  latitude :: string
  longitude :: string

record new_form =
  title :: string
  property_type_ui :: string
  size_ui :: string
  restrictions_ui :: string
  status_ui :: string
  nf_price :: string
  bedrooms :: string
  bathrooms :: string
  square_feet :: string
  description :: string
  nf_features :: string
  nf_address :: form_address
  nf_coordinates :: coordinates
  nf_nearby :: string
  location_text :: string
  contact_phone :: string
  alternative_phone :: string
  contact_email :: string

record payload =
  p_title :: string
  p_property_type :: string
  p_status :: string
  p_price :: num_field
  p_bedrooms :: num_field
  p_bathrooms :: num_field
  p_square_feet :: num_field
  p_description :: "string option"
  p_features :: "string list"
  p_images :: "string list"
  p_address :: form_address
  p_coordinates :: "(num_field \<times> num_field) option"

datatype http_method = GET | POST | PUT | DELETE

text \<open>
  A request as the admin components issue it. \<open>Request m url auth\<close> has the method, the
  URL and whether the bearer token is attached; \<open>Create url auth body\<close> is the POST of a
  new property with its payload; \<open>Upload url names\<close> is the multipart POST of the staged
  files. The bodies of the PUT requests are not part of the trace.
\<close>

datatype request =
    Request http_method string bool
  | Create string bool payload
  | Upload string "string list"

definition number_or_null :: "string \<Rightarrow> num_field" where
  \<comment> \<open>\<open>s ? Number(s) : null\<close>\<close>
  "number_or_null s = (if s \<noteq> [] then NumberOf s else Null)"

definition payload_bedrooms :: "new_form \<Rightarrow> num_field" where
  \<comment> \<open>\<open>form.bedrooms ? Number(form.bedrooms) : (bedroomsFromSize(form.size_ui) || null)\<close>\<close>
  "payload_bedrooms form =
     (if bedrooms form \<noteq> [] then NumberOf (bedrooms form)
      else (case bedroomsFromSize (size_ui form) of
              None \<Rightarrow> Null
            | Some n \<Rightarrow> if n = 0 then Null else Num n))"

definition payload_features :: "new_form \<Rightarrow> string list" where
  "payload_features form =
     (let base = (if nf_features form \<noteq> []
                  then filter (\<lambda>s. s \<noteq> []) (map trim (split_on CHR '','' (nf_features form)))
                  else []);
          base = (if restrictions_ui form \<noteq> [] then base @ [restrictions_ui form] else base);
          base = (if nf_nearby form \<noteq> [] then base @ [''Nearby: '' @ nf_nearby form] else base);
          base = (if location_text form \<noteq> [] then base @ [''Location: '' @ location_text form] else base)
      in base)"

definition build_payload :: "new_form \<Rightarrow> payload" where
  "build_payload form =
     \<lparr>p_title = title form,
      p_property_type = mapPropertyTypeToBackend (property_type_ui form),
      p_status = mapStatusToBackend (status_ui form),
      p_price = NumberOf (nf_price form),
      p_bedrooms = payload_bedrooms form,
      p_bathrooms = number_or_null (bathrooms form),
      p_square_feet = number_or_null (square_feet form),
      p_description = (if description form \<noteq> [] then Some (description form) else None),
      p_features = payload_features form,
      p_images = [],
      p_address = (nf_address form)\<lparr>country :=
                     (if country (nf_address form) \<noteq> [] then country (nf_address form)
                      else ''United States'')\<rparr>,
      p_coordinates =
        (if latitude (nf_coordinates form) \<noteq> [] \<and> longitude (nf_coordinates form) \<noteq> []
         then Some (NumberOf (latitude (nf_coordinates form)), NumberOf (longitude (nf_coordinates form)))
         else None)\<rparr>"

record new_listing_state =
  nl_form :: new_form
  nl_loading :: bool
  nl_error :: string
  nl_success :: string
  nl_selectedImages :: "staged_image list"
  nl_imageUploading :: bool
  nl_imageError :: string

definition initial_form :: new_form where
  "initial_form =
     \<lparr>title = [], property_type_ui = ''Apartment'', size_ui = [], restrictions_ui = [],
      status_ui = ''Available'', nf_price = [], bedrooms = [], bathrooms = [], square_feet = [],
      description = [], nf_features = [],
      nf_address = \<lparr>street = [], fa_city = ''Jaipur'', state = ''Rajasthan'', zip_code = [],
                     country = ''India''\<rparr>,
      nf_coordinates = \<lparr>latitude = [], longitude = []\<rparr>,
      nf_nearby = [], location_text = [], contact_phone = [], alternative_phone = [],
      contact_email = []\<rparr>"

definition initial_new_listing_state :: new_listing_state where
  "initial_new_listing_state =
     \<lparr>nl_form = initial_form, nl_loading = False, nl_error = [], nl_success = [],
      nl_selectedImages = [], nl_imageUploading = False, nl_imageError = []\<rparr>"

fun validate_files :: "image_file list \<Rightarrow> string option" where
  \<comment> \<open>the loop over the selected files; \<open>Some msg\<close> is the \<open>setImageError(msg); return\<close>\<close>
  "validate_files [] = None"
| "validate_files (f # fs) =
     (if \<not> startsWith (file_type f) ''image/'' then Some ''Only image files are allowed''
      else if file_size f > MAX_IMAGE_BYTES then Some ''Image size must be less than 10MB''
      else validate_files fs)"

definition new_handleImageSelect ::
  "(nat \<Rightarrow> string \<times> string) \<Rightarrow> image_file list \<Rightarrow> new_listing_state \<Rightarrow> new_listing_state"
where
  "new_handleImageSelect fresh files st =
     (let st1 = st\<lparr>nl_imageError := []\<rparr> in
      if length files + length (nl_selectedImages st1) > 10
      then st1\<lparr>nl_imageError := ''Maximum 10 images allowed''\<rparr>
      else (case validate_files files of
              Some msg \<Rightarrow> st1\<lparr>nl_imageError := msg\<rparr>
            | None \<Rightarrow> st1\<lparr>nl_selectedImages := nl_selectedImages st1 @ stage_files fresh files\<rparr>))"

definition create_error_message :: "admin_error \<Rightarrow> string" where
  "create_error_message e =
     (let msg = or_else (ae_detail e) (or_else (ae_message e) ''Failed to create listing.'') in
      if ae_status e = Some 401 \<or> ae_status e = Some 403
      then msg @ '' (Authentication required. Please log in as agent/admin or use dev public endpoint.)''
      else msg)"

definition reset_form :: "new_form \<Rightarrow> new_form" where
  "reset_form form =
     form\<lparr>title := [], nf_price := [], bedrooms := [], bathrooms := [], square_feet := [],
          description := [], nf_features := [], size_ui := [], restrictions_ui := [],
          nf_nearby := [], location_text := [], contact_phone := [], alternative_phone := [],
          contact_email := []\<rparr>"

definition created_message :: "string \<Rightarrow> string list \<Rightarrow> string" where
  "created_message cid uploadedImages =
     ''Listing created with ID: '' @ cid @
       (if length uploadedImages > 0
        then '' and '' @ string_of_nat (length uploadedImages) @ '' images uploaded''
        else [])"

text \<open>
  \<open>submit\<close> of the new-listing form. \<open>token\<close> is \<open>localStorage.getItem('token')\<close>;
  \<open>create_res\<close> answers the POST that creates the property (\<open>Inr id\<close> is the id of the
  created record), \<open>upload_res\<close> the multipart upload (\<open>Inr urls\<close> is
  \<open>response.data.images || []\<close>), \<open>put_res\<close> the PUT that stores the image URLs.
\<close>

definition submit ::
  "string option \<Rightarrow> (admin_error + string) \<Rightarrow> (unit + string list) \<Rightarrow> (unit + unit)
     \<Rightarrow> new_listing_state \<Rightarrow> new_listing_state \<times> request list"
where
  "submit token create_res upload_res put_res st =
     (let st1 = st\<lparr>nl_loading := True, nl_error := [], nl_success := []\<rparr>;
          authed = (or_else token [] \<noteq> []);
          payload = build_payload (nl_form st1);
          create_req = (if authed then Create ''/properties/'' True payload
                        else Create ''/properties/public'' False payload)
      in case create_res of
           Inl e \<Rightarrow> (st1\<lparr>nl_error := create_error_message e, nl_loading := False\<rparr>, [create_req])
         | Inr cid \<Rightarrow>
             (let upload_req = Upload (''/images/upload/'' @ cid)
                                 (map (\<lambda>img. file_name (si_file img)) (nl_selectedImages st1));
                  put_req = (if authed then Request PUT (''/properties/'' @ cid) True
                             else Request PUT (''/properties/public/'' @ cid) False);
                  failed = ''Property created but image upload failed. You can add images later by editing the property.'';
                  (uploadedImages, st2, reqs) =
                    (if length (nl_selectedImages st1) > 0 then
                       (case upload_res of
                          Inl _ \<Rightarrow>
                            ([], st1\<lparr>nl_imageUploading := False, nl_error := failed\<rparr>, [upload_req])
                        | Inr urls \<Rightarrow>
                            (case put_res of
                               Inl _ \<Rightarrow>
                                 (urls, st1\<lparr>nl_imageUploading := False, nl_error := failed\<rparr>,
                                  [upload_req, put_req])
                             | Inr _ \<Rightarrow> (urls, st1\<lparr>nl_imageUploading := False\<rparr>, [upload_req, put_req])))
                     else ([], st1, []))
              in (st2\<lparr>nl_success := created_message cid uploadedImages,
                      nl_form := reset_form (nl_form st2),
                      nl_selectedImages := [],
                      nl_imageError := [],
                      nl_loading := False\<rparr>,
                  create_req # reqs)))"

subsection \<open>Listing management (component AdminListings)\<close>

definition idMapping :: "(string \<times> string) list" where
  "idMapping =
     [(''68ce7ad275b8647ccef110ba'', ''22a9d63e-b0b7-449e-a757-43215814e82e''),
      (''68ce7ad275b8647ccef110bb'', ''9efed634-a8bb-4079-9c2a-ab2a90eca4d4''),
      (''68ce7ad275b8647ccef110bc'', ''b31e354a-ada1-427d-8ef9-1824c608073b''),
      (''68ce7ad275b8647ccef110bd'', ''23a71945-3f85-4427-a712-404e6450b0ea''),
      (''68ce7ad275b8647ccef110be'', ''5d8dc159-c57b-4fdb-859f-e795e1e420f6'')]"

definition getCorrectId :: "property \<Rightarrow> string" where
  "getCorrectId listing =
     (case map_of idMapping (prop_id listing) of
        Some uuid \<Rightarrow> uuid
      | None \<Rightarrow> prop_id listing)"

definition unreserved :: "char \<Rightarrow> bool" where
  "unreserved c =
     (c \<in> set ''ABCDEFGHIJKLMNOPQRSTUVWXYZabcdefghijklmnopqrstuvwxyz0123456789-_.!~*()'' \<or> c = CHR 0x27)"

definition hex_digit :: "nat \<Rightarrow> char" where
  "hex_digit n = ''0123456789ABCDEF'' ! (n mod 16)"

definition encodeURIComponent :: "string \<Rightarrow> string" where
  "encodeURIComponent s =
     concat (map (\<lambda>c. if unreserved c then [c]
                       else [CHR ''%'', hex_digit (of_char c div 16), hex_digit (of_char c mod 16)]) s)"

record edit_form =
  ef_title :: string
  ef_images :: "string list option"

record admin_listings_state =
  al_listings :: "property list"
  al_filteredListings :: "property list"
  al_loading :: bool
  al_error :: string
  editingListing :: "property option"
  editForm :: "edit_form option"
  updateLoading :: bool
  al_selectedImages :: "staged_image list"
  al_imageUploading :: bool
  al_imageError :: string

text \<open>
  Of the edit form, the title and the \<open>images\<close> key are modelled; its other fields are
  read only to build the body of the PUT. \<open>ef_images = None\<close> is a form object without
  an \<open>images\<close> key.
\<close>

definition edit_images :: "admin_listings_state \<Rightarrow> string list" where
  \<comment> \<open>\<open>editForm.images || []\<close>; \<open>editForm = None\<close> is the empty object \<open>{}\<close>\<close>
  "edit_images st =
     (case editForm st of
        None \<Rightarrow> []
      | Some ef \<Rightarrow> (case ef_images ef of None \<Rightarrow> [] | Some imgs \<Rightarrow> imgs))"

definition edit_handleImageSelect ::
  "(nat \<Rightarrow> string \<times> string) \<Rightarrow> image_file list \<Rightarrow> admin_listings_state \<Rightarrow> admin_listings_state"
where
  "edit_handleImageSelect fresh files st =
     (let st1 = st\<lparr>al_imageError := []\<rparr>;
          currentImageCount = length (edit_images st1)
      in
      if length files + currentImageCount + length (al_selectedImages st1) > 10
      then st1\<lparr>al_imageError := ''Maximum 10 images allowed''\<rparr>
      else (case validate_files files of
              Some msg \<Rightarrow> st1\<lparr>al_imageError := msg\<rparr>
            | None \<Rightarrow> st1\<lparr>al_selectedImages := al_selectedImages st1 @ stage_files fresh files\<rparr>))"

definition startEdit :: "property \<Rightarrow> admin_listings_state \<Rightarrow> admin_listings_state" where
  \<comment> \<open>the object given to \<open>setEditForm\<close> lists the fields of the listing one by one and
      has no \<open>images\<close> key\<close>
  "startEdit listing st =
     st\<lparr>editingListing := Some listing,
        editForm := Some \<lparr>ef_title = (case prop_title listing of None \<Rightarrow> [] | Some t \<Rightarrow> t),
                             ef_images = None\<rparr>,
        al_selectedImages := [],
        al_imageError := []\<rparr>"

definition removeNewImage :: "string \<Rightarrow> admin_listings_state \<Rightarrow> admin_listings_state" where
  "removeNewImage imageId st =
     st\<lparr>al_selectedImages := filter (\<lambda>img. si_id img \<noteq> imageId) (al_selectedImages st)\<rparr>"

definition removeExistingImage :: "string \<Rightarrow> admin_listings_state \<Rightarrow> admin_listings_state" where
  \<comment> \<open>\<open>setEditForm(prev => ({...prev, images: (prev.images || []).filter(img => img !== imageUrl)}))\<close>\<close>
  "removeExistingImage imageUrl st =
     st\<lparr>editForm :=
          Some ((case editForm st of None \<Rightarrow> \<lparr>ef_title = [], ef_images = None\<rparr> | Some ef \<Rightarrow> ef)
                  \<lparr>ef_images := Some (filter (\<lambda>img. img \<noteq> imageUrl) (edit_images st))\<rparr>)\<rparr>"

text \<open>
  What the user can do to the images of the edit dialog. The file input is disabled
  once ten images are counted, and a remove button of an existing image is rendered
  only for the entries of \<open>editForm.images\<close>.
\<close>

datatype edit_event =
    StartEdit property
  | SelectImages "nat \<Rightarrow> string \<times> string" "image_file list"
  | RemoveNewImage string
  | RemoveExistingImage string

fun edit_step :: "admin_listings_state \<Rightarrow> edit_event \<Rightarrow> admin_listings_state" where
  "edit_step st (StartEdit listing) = startEdit listing st"
| "edit_step st (SelectImages fresh files) =
     (if length (edit_images st) + length (al_selectedImages st) \<ge> 10 then st
      else edit_handleImageSelect fresh files st)"
| "edit_step st (RemoveNewImage imageId) = removeNewImage imageId st"
| "edit_step st (RemoveExistingImage imageUrl) =
     (if imageUrl \<in> set (edit_images st) then removeExistingImage imageUrl st else st)"

definition run_edit_events :: "edit_event list \<Rightarrow> admin_listings_state \<Rightarrow> admin_listings_state" where
  "run_edit_events es st = foldl edit_step st es"

definition fetchListings ::
  "(admin_error + property list option) \<Rightarrow> admin_listings_state \<Rightarrow> admin_listings_state \<times> request list"
where
  "fetchListings res st =
     (let st1 = st\<lparr>al_loading := True, al_error := []\<rparr> in
      (case res of
         Inr d \<Rightarrow> st1\<lparr>al_listings := data_array d, al_filteredListings := data_array d,
                       al_loading := False\<rparr>
       | Inl e \<Rightarrow> st1\<lparr>al_error := or_else (ae_detail e) (or_else (ae_message e) ''Failed to load listings.''),
                       al_listings := [], al_filteredListings := [], al_loading := False\<rparr>,
       [Request GET ''/properties/'' False]))"

definition update_error_message :: "admin_error \<Rightarrow> string" where
  "update_error_message e =
     (if or_else (ae_detail e) [] \<noteq> [] then or_else (ae_detail e) []
      else if or_else (ae_data_message e) [] \<noteq> [] then or_else (ae_data_message e) []
      else if ae_status e = Some 404 then ''Listing not found. It may have been deleted.''
      else if ae_status e = Some 401 \<or> ae_status e = Some 403
        then ''Authentication required. Please log in as admin/agent.''
      else if ae_status e = Some 422 then ''Invalid data provided. Please check all fields.''
      else or_else (ae_message e) ''Failed to update listing.'')"

text \<open>
  \<open>updateListing\<close>. \<open>upload_res\<close> answers the multipart upload, \<open>public_res\<close> the PUT on
  the public endpoint (tried only without a token), \<open>put_res\<close> the PUT on the regular
  endpoint, \<open>refresh_res\<close> the GET of \<open>fetchListings\<close>.
\<close>

definition updateListing ::
  "string option \<Rightarrow> (unit + string list) \<Rightarrow> (admin_error + unit) \<Rightarrow> (admin_error + unit)
     \<Rightarrow> (admin_error + property list option)
     \<Rightarrow> admin_listings_state \<Rightarrow> admin_listings_state \<times> request list"
where
  "updateListing token upload_res public_res put_res refresh_res st =
     (case editingListing st of
        None \<Rightarrow> (st, [])
      | Some listing \<Rightarrow>
          (let correctId = getCorrectId listing;
               st1 = st\<lparr>updateLoading := True, al_error := []\<rparr>;
               upload_req = Upload (''/images/upload/'' @ correctId)
                              (map (\<lambda>img. file_name (si_file img)) (al_selectedImages st1));
               (uploadedImages, st2, reqs1) =
                 (if length (al_selectedImages st1) > 0 then
                    (case upload_res of
                       Inl _ \<Rightarrow>
                         ([], st1\<lparr>al_imageUploading := False,
                                   al_error := ''Property updated but image upload failed. You can try uploading images again.''\<rparr>,
                          [upload_req])
                     | Inr urls \<Rightarrow> (urls, st1\<lparr>al_imageUploading := False\<rparr>, [upload_req]))
                  else ([], st1, []));
               regular_url = ''/properties/'' @ encodeURIComponent correctId;
               public_url = ''/properties/public/'' @ encodeURIComponent correctId;
               (response, reqs2) =
                 (if or_else token [] \<noteq> [] then (put_res, [Request PUT regular_url True])
                  else (case public_res of
                          Inr r \<Rightarrow> (Inr r, [Request PUT public_url False])
                        | Inl _ \<Rightarrow> (put_res, [Request PUT public_url False, Request PUT regular_url False])))
           in case response of
                Inl e \<Rightarrow> (st2\<lparr>al_error := update_error_message e, updateLoading := False\<rparr>, reqs1 @ reqs2)
              | Inr _ \<Rightarrow>
                  (let (st3, reqs3) = fetchListings refresh_res st2 in
                   (st3\<lparr>editingListing := None, editForm := None, al_selectedImages := [],
                         al_imageError := [], updateLoading := False\<rparr>,
                    reqs1 @ reqs2 @ reqs3))))"

section \<open>Contracts and example data\<close>

subsection \<open>The filter contract\<close>

definition facet_active :: "string \<Rightarrow> bool" where
  \<comment> \<open>the guard \<open>filters.x && String(filters.x).trim()\<close>\<close>
  "facet_active v = (v \<noteq> [] \<and> trim v \<noteq> [])"

definition price_ok :: "string \<Rightarrow> property \<Rightarrow> bool" where
  "price_ok pr it =
     (case price_bucket pr of
        Some priceFilter \<Rightarrow> priceFilter (numeric_price it)
      | None \<Rightarrow> True)"

definition passes_all_stages :: "filters \<Rightarrow> property \<Rightarrow> bool" where
  \<comment> \<open>the callbacks of the five stages of \<open>filteredListings\<close>, each under the guard of
      its stage\<close>
  "passes_all_stages f it =
     ((priceRange f \<noteq> [] \<longrightarrow> price_ok (priceRange f) it) \<and>
      (facet_active (roomType f) \<longrightarrow> room_matches (toLowerCase (trim (roomType f))) it) \<and>
      (facet_active (location f) \<longrightarrow> location_matches (toLowerCase (trim (location f))) it) \<and>
      (facet_active (restrictions f) \<longrightarrow> restriction_matches (toLowerCase (trim (restrictions f))) it) \<and>
      (facet_active (nearby f) \<longrightarrow> nearby_matches (toLowerCase (trim (nearby f))) it))"

definition no_filters :: filters where
  "no_filters = \<lparr>location = [], nearby = [], priceRange = [], roomType = [], restrictions = []\<rparr>"

definition only_price :: "filters \<Rightarrow> filters" where
  "only_price f = no_filters\<lparr>priceRange := priceRange f\<rparr>"

definition only_roomType :: "filters \<Rightarrow> filters" where
  "only_roomType f = no_filters\<lparr>roomType := roomType f\<rparr>"

definition only_location :: "filters \<Rightarrow> filters" where
  "only_location f = no_filters\<lparr>location := location f\<rparr>"

definition only_restrictions :: "filters \<Rightarrow> filters" where
  "only_restrictions f = no_filters\<lparr>restrictions := restrictions f\<rparr>"

definition only_nearby :: "filters \<Rightarrow> filters" where
  "only_nearby f = no_filters\<lparr>nearby := nearby f\<rparr>"

text \<open>
  The facets as the specification words them. The value of a facet is its text without
  the surrounding white space, and a facet whose value is empty is left empty.
\<close>

definition blank :: "string \<Rightarrow> bool" where
  "blank v = (trim v = [])"

definition price_as_number :: "property \<Rightarrow> real" where
  \<comment> \<open>the numeric price of a property: the price itself when it is a number, the
      numeric reading of any other value, 0 when it has none\<close>
  "price_as_number it =
     (case price it of
        PriceNumber n \<Rightarrow> n
      | PriceOther None \<Rightarrow> 0
      | PriceOther (Some r) \<Rightarrow> r)"

definition spec_in_bucket :: "string \<Rightarrow> real \<Rightarrow> bool" where
  \<comment> \<open>the six fixed buckets: closed at both ends, except the open bottom and top ones\<close>
  "spec_in_bucket label p =
     ((label = ''Under '' @ rupee @ ''10,000'' \<and> p < 10000) \<or>
      (label = rupee @ ''10,000 - '' @ rupee @ ''20,000'' \<and> 10000 \<le> p \<and> p \<le> 20000) \<or>
      (label = rupee @ ''20,000 - '' @ rupee @ ''30,000'' \<and> 20000 \<le> p \<and> p \<le> 30000) \<or>
      (label = rupee @ ''30,000 - '' @ rupee @ ''50,000'' \<and> 30000 \<le> p \<and> p \<le> 50000) \<or>
      (label = rupee @ ''50,000 - '' @ rupee @ ''75,000'' \<and> 50000 \<le> p \<and> p \<le> 75000) \<or>
      (label = ''Above '' @ rupee @ ''75,000'' \<and> p > 75000))"

definition spec_price_matches :: "string \<Rightarrow> property \<Rightarrow> bool" where
  "spec_price_matches label it = spec_in_bucket label (price_as_number it)"

definition spec_room_matches :: "string \<Rightarrow> property \<Rightarrow> bool" where
  \<comment> \<open>the room type is one of Apartment, House, Condo and the property type equals it,
      without regard to case\<close>
  "spec_room_matches v it =
     (toLowerCase (trim v) \<in> set (map toLowerCase UI_ROOM_TYPES) \<and>
      (case property_type it of
         None \<Rightarrow> False
       | Some t \<Rightarrow> toLowerCase t = toLowerCase (trim v)))"

definition spec_location_matches :: "string \<Rightarrow> property \<Rightarrow> bool" where
  \<comment> \<open>the value is a substring of \<open>address.city\<close>, without regard to case\<close>
  "spec_location_matches v it =
     (case prop_address it of
        None \<Rightarrow> False
      | Some a \<Rightarrow>
          (case city a of
             None \<Rightarrow> False
           | Some c \<Rightarrow> str_includes (toLowerCase c) (toLowerCase (trim v))))"

definition spec_restriction_matches :: "string \<Rightarrow> property \<Rightarrow> bool" where
  \<comment> \<open>some feature entry equals the value, without regard to case\<close>
  "spec_restriction_matches v it =
     (case features it of
        None \<Rightarrow> False
      | Some fs \<Rightarrow> list_ex (\<lambda>f. toLowerCase f = toLowerCase (trim v)) fs)"

definition spec_nearby_feature :: "string \<Rightarrow> string \<Rightarrow> bool" where
  \<comment> \<open>the nearby facet as the specification words it: the entry has the prefix
      \<open>Nearby:\<close> (compared without regard to case, as the code compares it) and the rest
      of the entry, trimmed, contains the filter value, case-insensitively\<close>
  "spec_nearby_feature v f =
     (startsWith (toLowerCase f) ''nearby:'' \<and>
      str_includes (toLowerCase (trim (drop (length ''nearby:'') f))) (toLowerCase (trim v)))"

definition spec_nearby_matches :: "string \<Rightarrow> property \<Rightarrow> bool" where
  "spec_nearby_matches v it =
     (case features it of
        None \<Rightarrow> False
      | Some fs \<Rightarrow> list_ex (spec_nearby_feature v) fs)"

definition spec_matches_all :: "filters \<Rightarrow> property \<Rightarrow> bool" where
  \<comment> \<open>every facet that is not left empty holds of the property\<close>
  "spec_matches_all f it =
     ((priceRange f \<noteq> [] \<longrightarrow> spec_price_matches (priceRange f) it) \<and>
      (\<not> blank (roomType f) \<longrightarrow> spec_room_matches (roomType f) it) \<and>
      (\<not> blank (location f) \<longrightarrow> spec_location_matches (location f) it) \<and>
      (\<not> blank (restrictions f) \<longrightarrow> spec_restriction_matches (restrictions f) it) \<and>
      (\<not> blank (nearby f) \<longrightarrow> spec_nearby_matches (nearby f) it))"

definition catalogs :: "listings_state \<Rightarrow> string list \<times> string list \<times> string list \<times> string list" where
  "catalogs st = (locationOptions st, nearbyOptions st, typeOptions st, featureOptions st)"

subsection \<open>The contact form\<close>

definition missing_fields :: "contact_state \<Rightarrow> bool" where
  "missing_fields st =
     (trim (cf_name (contactForm st)) = [] \<or> trim (cf_email (contactForm st)) = [] \<or>
      trim (cf_phone (contactForm st)) = [])"

definition invalid_phone :: "contact_state \<Rightarrow> bool" where
  "invalid_phone st = (\<not> isValidPhone (trim (cf_phone (contactForm st))))"

definition honeypot_filled :: "contact_state \<Rightarrow> bool" where
  "honeypot_filled st = (trim (cf_website (contactForm st)) \<noteq> [])"

definition contact_request_of :: "contact_state \<Rightarrow> listing_ref \<Rightarrow> contact_request" where
  "contact_request_of st listing =
     ContactPost ''/contact/submit''
       \<lparr>cp_name = trim (cf_name (contactForm st)), cp_email = trim (cf_email (contactForm st)),
        cp_phone = trim (cf_phone (contactForm st)), cp_listing_id = lr_id listing,
        cp_property_id = lr_id listing, cp_message = inquiry_message listing\<rparr>"

subsection \<open>Image staging\<close>

definition is_image :: "image_file \<Rightarrow> bool" where
  "is_image f = startsWith (file_type f) ''image/''"

definition acceptable :: "image_file \<Rightarrow> bool" where
  "acceptable f = (is_image f \<and> file_size f \<le> MAX_IMAGE_BYTES)"

definition existing_images :: "admin_listings_state \<Rightarrow> string list" where
  \<comment> \<open>the images the listing under edit already has\<close>
  "existing_images st =
     (case editingListing st of
        None \<Rightarrow> []
      | Some listing \<Rightarrow> (case images listing of None \<Rightarrow> [] | Some imgs \<Rightarrow> imgs))"

definition counter_fresh :: "nat \<Rightarrow> string \<times> string" where
  \<comment> \<open>an environment for \<open>URL.createObjectURL\<close> and \<open>Math.random\<close>\<close>
  "counter_fresh i = (''blob:preview-'' @ string_of_nat i, ''id'' @ string_of_nat i)"

definition is_delete :: "request \<Rightarrow> bool" where
  "is_delete r = (case r of Request m _ _ \<Rightarrow> m = DELETE | _ \<Rightarrow> False)"

subsection \<open>Example data\<close>

definition prop_metro :: property where
  "prop_metro =
     \<lparr>prop_id = ''p1'', prop_title = Some ''Flat near metro'', property_type = Some ''apartment'',
      price = PriceNumber 15000, prop_address = Some \<lparr>city = Some ''Jaipur''\<rparr>,
      features = Some [''Nearby: Metro Station'', ''Family''],
      images = Some [''/uploads/p1-a.jpg'', ''/uploads/p1-b.jpg'']\<rparr>"

definition prop_near :: property where
  "prop_near =
     \<lparr>prop_id = ''p2'', prop_title = Some ''House'', property_type = Some ''house'',
      price = PriceNumber 25000, prop_address = Some \<lparr>city = Some ''Jaipur''\<rparr>,
      features = Some [''Nearby: Near'', ''Students''], images = Some []\<rparr>"

definition prop_delhi :: property where
  "prop_delhi =
     \<lparr>prop_id = ''p3'', prop_title = Some ''Flat in Delhi'', property_type = Some ''apartment'',
      price = PriceNumber 15000, prop_address = Some \<lparr>city = Some ''Delhi''\<rparr>,
      features = Some [''Nearby: Metro Station'', ''Family''], images = Some []\<rparr>"

definition prop_house :: property where
  \<comment> \<open>as \<open>prop_metro\<close>, but a house\<close>
  "prop_house = prop_metro\<lparr>prop_id := ''p4'', property_type := Some ''house''\<rparr>"

definition prop_pricey :: property where
  \<comment> \<open>as \<open>prop_metro\<close>, but at 25000\<close>
  "prop_pricey = prop_metro\<lparr>prop_id := ''p5'', price := PriceNumber 25000\<rparr>"

definition prop_students :: property where
  \<comment> \<open>as \<open>prop_metro\<close>, but for students\<close>
  "prop_students =
     prop_metro\<lparr>prop_id := ''p6'', features := Some [''Nearby: Metro Station'', ''Students'']\<rparr>"

definition prop_mall :: property where
  \<comment> \<open>as \<open>prop_metro\<close>, but near the mall\<close>
  "prop_mall =
     prop_metro\<lparr>prop_id := ''p7'', features := Some [''Nearby: City Mall'', ''Family'']\<rparr>"

definition prop_gallery :: property where
  \<comment> \<open>a listing that already has nine images\<close>
  "prop_gallery =
     prop_metro\<lparr>prop_id := ''p8'',
        images := Some [''/uploads/1.jpg'', ''/uploads/2.jpg'', ''/uploads/3.jpg'', ''/uploads/4.jpg'',
                        ''/uploads/5.jpg'', ''/uploads/6.jpg'', ''/uploads/7.jpg'', ''/uploads/8.jpg'',
                        ''/uploads/9.jpg'']\<rparr>"

definition seven_listings :: "property list" where
  "seven_listings =
     [prop_metro, prop_near, prop_delhi, prop_house, prop_pricey, prop_students, prop_mall]"

definition near_filters :: filters where
  "near_filters = no_filters\<lparr>location := ''Jaipur'', nearby := ''Near''\<rparr>"

definition example_filters :: filters where
  "example_filters =
     \<lparr>location = ''Jaipur'', nearby = ''Metro Station'',
      priceRange = rupee @ ''10,000 - '' @ rupee @ ''20,000'',
      roomType = ''Apartment'', restrictions = ''Family''\<rparr>"

definition example_contact :: contact_state where
  "example_contact =
     \<lparr>contactListing = Some \<lparr>lr_id = ''p1'', lr_title = Some ''Flat near metro''\<rparr>,
      contactForm = \<lparr>cf_name = ''Asha'', cf_email = ''asha@example.com'', cf_phone = ''9876543210'',
                     cf_message = [], cf_website = []\<rparr>,
      contactSubmitting = False, contactError = [], contactSuccess = [], closeTimerSet = False,
      localStorage = [RATE_KEY \<mapsto> ''1700000000000'']\<rparr>"

definition country_code_contact :: contact_state where
  \<comment> \<open>the example form with the phone number written with its country code\<close>
  "country_code_contact =
     example_contact\<lparr>contactForm := (contactForm example_contact)\<lparr>cf_phone := ''+91-9876543210''\<rparr>\<rparr>"

definition png_small :: image_file where
  "png_small = \<lparr>file_name = ''room.png'', file_type = ''image/png'', file_size = 204800\<rparr>"

definition png_big :: image_file where
  "png_big = \<lparr>file_name = ''hall.png'', file_type = ''image/png'', file_size = 11534336\<rparr>"

definition pdf_small :: image_file where
  "pdf_small = \<lparr>file_name = ''lease.pdf'', file_type = ''application/pdf'', file_size = 1024\<rparr>"

definition initial_admin_listings_state :: admin_listings_state where
  "initial_admin_listings_state =
     \<lparr>al_listings = [], al_filteredListings = [], al_loading = False, al_error = [],
      editingListing = None, editForm = None, updateLoading = False, al_selectedImages = [],
      al_imageUploading = False, al_imageError = []\<rparr>"

definition example_edit :: admin_listings_state where
  \<comment> \<open>the edit dialog open on a listing, with one image staged\<close>
  "example_edit =
     initial_admin_listings_state
       \<lparr>al_listings := [prop_metro], al_filteredListings := [prop_metro],
        editingListing := Some prop_metro,
        editForm := Some \<lparr>ef_title = ''Flat near metro'', ef_images = None\<rparr>,
        al_selectedImages := [\<lparr>si_file = png_small, si_preview = ''blob:preview-0'', si_id = ''id0''\<rparr>]\<rparr>"

section \<open>Properties of the public listings page\<close>

subsection \<open>Phone validation\<close>

lemma strip_non_digits_filter: "strip_non_digits s = filter is_digit s"
  by (induction s) auto

text \<open>
  The validator accepts a string exactly when it has ten digit characters.
\<close>

lemma isValidPhone_ten_digits:
  "isValidPhone val = (length (filter is_digit val) = 10)
   \<and> \<not> isValidPhone ''987654321''
   \<and> isValidPhone ''9876543210''"
  by (simp add: isValidPhone_def strip_non_digits_filter is_digit_def)

text \<open>
  Claim C4, evaluated on the code. Removing the non-digits of \<open>+91-9876543210\<close> leaves
  the twelve digits \<open>919876543210\<close>, and the validator rejects them: a submission of the
  example form with this phone number, outside the rate limit, sends no request and
  shows \<open>Please enter a valid contact number (10-13 digits).\<close>, a text that twelve
  digits satisfy.
\<close>

theorem isValidPhone_rejects_country_code:
  "strip_non_digits ''+91-9876543210'' = ''919876543210''
   \<and> \<not> isValidPhone ''+91-9876543210''
   \<and> submitContact 1700000060000 (Inr ()) 1700000060500 True country_code_contact
       = (country_code_contact
            \<lparr>contactSubmitting := False,
             contactError := ''Please enter a valid contact number (10-13 digits).'',
             contactSuccess := []\<rparr>, [])"
  by (simp add: isValidPhone_def is_digit_def submitContact_def country_code_contact_def
      example_contact_def last_submit_def RATE_KEY_def Number_of_string_def trim_def is_space_def
      nat_of_digits_def digit_val_def rate_limited_def RATE_LIMIT_MS_def Let_def)

subsection \<open>Client-side filtering\<close>

lemma price_stage_filter: "price_stage pr arr = filter (\<lambda>it. pr \<noteq> [] \<longrightarrow> price_ok pr it) arr"
  by (simp add: price_stage_def price_ok_def split: option.splits)

lemma room_stage_filter:
  "room_stage rt arr = filter (\<lambda>it. facet_active rt \<longrightarrow> room_matches (toLowerCase (trim rt)) it) arr"
  by (simp add: room_stage_def facet_active_def)

lemma location_stage_filter:
  "location_stage loc arr =
     filter (\<lambda>it. facet_active loc \<longrightarrow> location_matches (toLowerCase (trim loc)) it) arr"
  by (simp add: location_stage_def facet_active_def)

lemma restrictions_stage_filter:
  "restrictions_stage rs arr =
     filter (\<lambda>it. facet_active rs \<longrightarrow> restriction_matches (toLowerCase (trim rs)) it) arr"
  by (simp add: restrictions_stage_def facet_active_def)

lemma nearby_stage_filter:
  "nearby_stage nb arr =
     filter (\<lambda>it. facet_active nb \<longrightarrow> nearby_matches (toLowerCase (trim nb)) it) arr"
  by (simp add: nearby_stage_def facet_active_def)

lemma filteredListings_filter: "filteredListings f ls = filter (passes_all_stages f) ls"
  unfolding filteredListings_def Let_def price_stage_filter room_stage_filter
    location_stage_filter restrictions_stage_filter nearby_stage_filter filter_filter
  by (rule filter_cong [OF refl]) (auto simp: passes_all_stages_def)

lemma not_active_Nil: "\<not> facet_active []"
  by (simp add: facet_active_def)

lemma passes_all_stages_only:
  "passes_all_stages f it \<Longrightarrow> passes_all_stages (only_price f) it"
  "passes_all_stages f it \<Longrightarrow> passes_all_stages (only_roomType f) it"
  "passes_all_stages f it \<Longrightarrow> passes_all_stages (only_location f) it"
  "passes_all_stages f it \<Longrightarrow> passes_all_stages (only_restrictions f) it"
  "passes_all_stages f it \<Longrightarrow> passes_all_stages (only_nearby f) it"
  by (simp_all add: passes_all_stages_def only_price_def only_roomType_def only_location_def
        only_restrictions_def only_nearby_def no_filters_def not_active_Nil)

text \<open>
  The stages only remove properties: with every facet empty nothing is removed, and
  the result is contained in the result of each facet applied alone.
\<close>

lemma filteredListings_monotone:
  "filteredListings no_filters ls = ls
   \<and> set (filteredListings f ls) \<subseteq> set (filteredListings (only_price f) ls)
   \<and> set (filteredListings f ls) \<subseteq> set (filteredListings (only_roomType f) ls)
   \<and> set (filteredListings f ls) \<subseteq> set (filteredListings (only_location f) ls)
   \<and> set (filteredListings f ls) \<subseteq> set (filteredListings (only_restrictions f) ls)
   \<and> set (filteredListings f ls) \<subseteq> set (filteredListings (only_nearby f) ls)"
proof -
  have "filteredListings no_filters ls = ls"
    by (simp add: filteredListings_filter passes_all_stages_def no_filters_def not_active_Nil)
  then show ?thesis
    by (auto simp: filteredListings_filter passes_all_stages_only)
qed

lemma numeric_price_field: "numeric_price it = price_as_number it"
  by (simp add: numeric_price_def price_as_number_def split: price_field.splits option.splits)

text \<open>
  Claim C2. The numeric price of a property is its \<open>price\<close> field when that is a number
  (and the numeric reading of any other value, 0 when it has none). Each of the six
  price labels keeps exactly the properties whose numeric price lies in the interval of
  its bucket, closed at both ends except for the open bottom and top buckets: a
  property whose price is the number \<open>n\<close> passes the filter of a label if and only if
  \<open>n\<close> lies in that interval. The six labels are the options the price selector
  offers; and whatever the other facets are, every property returned by
  \<open>filteredListings\<close> passes the price stage of the selected label.
\<close>

theorem price_filter_buckets:
  "price_stage (''Under '' @ rupee @ ''10,000'') arr = filter (\<lambda>it. numeric_price it < 10000) arr
   \<and> price_stage (rupee @ ''10,000 - '' @ rupee @ ''20,000'') arr
       = filter (\<lambda>it. 10000 \<le> numeric_price it \<and> numeric_price it \<le> 20000) arr
   \<and> price_stage (rupee @ ''20,000 - '' @ rupee @ ''30,000'') arr
       = filter (\<lambda>it. 20000 \<le> numeric_price it \<and> numeric_price it \<le> 30000) arr
   \<and> price_stage (rupee @ ''30,000 - '' @ rupee @ ''50,000'') arr
       = filter (\<lambda>it. 30000 \<le> numeric_price it \<and> numeric_price it \<le> 50000) arr
   \<and> price_stage (rupee @ ''50,000 - '' @ rupee @ ''75,000'') arr
       = filter (\<lambda>it. 50000 \<le> numeric_price it \<and> numeric_price it \<le> 75000) arr
   \<and> price_stage (''Above '' @ rupee @ ''75,000'') arr = filter (\<lambda>it. numeric_price it > 75000) arr
   \<and> numeric_price p = price_as_number p
   \<and> (price p = PriceNumber n \<longrightarrow>
        (p \<in> set (price_stage (''Under '' @ rupee @ ''10,000'') arr) \<longleftrightarrow> p \<in> set arr \<and> n < 10000)
      \<and> (p \<in> set (price_stage (rupee @ ''10,000 - '' @ rupee @ ''20,000'') arr)
            \<longleftrightarrow> p \<in> set arr \<and> 10000 \<le> n \<and> n \<le> 20000)
      \<and> (p \<in> set (price_stage (rupee @ ''20,000 - '' @ rupee @ ''30,000'') arr)
            \<longleftrightarrow> p \<in> set arr \<and> 20000 \<le> n \<and> n \<le> 30000)
      \<and> (p \<in> set (price_stage (rupee @ ''30,000 - '' @ rupee @ ''50,000'') arr)
            \<longleftrightarrow> p \<in> set arr \<and> 30000 \<le> n \<and> n \<le> 50000)
      \<and> (p \<in> set (price_stage (rupee @ ''50,000 - '' @ rupee @ ''75,000'') arr)
            \<longleftrightarrow> p \<in> set arr \<and> 50000 \<le> n \<and> n \<le> 75000)
      \<and> (p \<in> set (price_stage (''Above '' @ rupee @ ''75,000'') arr) \<longleftrightarrow> p \<in> set arr \<and> n > 75000))
   \<and> length PRICE_RANGES = 6 \<and> list_all (\<lambda>label. price_bucket label \<noteq> None) PRICE_RANGES
   \<and> set (filteredListings f ls) \<subseteq> set (price_stage (priceRange f) ls)"
proof -
  have sub: "set (filteredListings f ls) \<subseteq> set (price_stage (priceRange f) ls)"
    by (auto simp: filteredListings_filter price_stage_filter passes_all_stages_def)
  have opts: "length PRICE_RANGES = 6 \<and> list_all (\<lambda>label. price_bucket label \<noteq> None) PRICE_RANGES"
    by (simp add: PRICE_RANGES_def price_bucket_def rupee_def)
  have eqs: "price_stage (''Under '' @ rupee @ ''10,000'') arr = filter (\<lambda>it. numeric_price it < 10000) arr
   \<and> price_stage (rupee @ ''10,000 - '' @ rupee @ ''20,000'') arr
       = filter (\<lambda>it. 10000 \<le> numeric_price it \<and> numeric_price it \<le> 20000) arr
   \<and> price_stage (rupee @ ''20,000 - '' @ rupee @ ''30,000'') arr
       = filter (\<lambda>it. 20000 \<le> numeric_price it \<and> numeric_price it \<le> 30000) arr
   \<and> price_stage (rupee @ ''30,000 - '' @ rupee @ ''50,000'') arr
       = filter (\<lambda>it. 30000 \<le> numeric_price it \<and> numeric_price it \<le> 50000) arr
   \<and> price_stage (rupee @ ''50,000 - '' @ rupee @ ''75,000'') arr
       = filter (\<lambda>it. 50000 \<le> numeric_price it \<and> numeric_price it \<le> 75000) arr
   \<and> price_stage (''Above '' @ rupee @ ''75,000'') arr = filter (\<lambda>it. numeric_price it > 75000) arr"
    by (simp add: price_stage_def price_bucket_def rupee_def)
  have num: "price p = PriceNumber n \<Longrightarrow> numeric_price p = n"
    by (simp add: numeric_price_def)
  from eqs num have mem: "price p = PriceNumber n \<longrightarrow>
        (p \<in> set (price_stage (''Under '' @ rupee @ ''10,000'') arr) \<longleftrightarrow> p \<in> set arr \<and> n < 10000)
      \<and> (p \<in> set (price_stage (rupee @ ''10,000 - '' @ rupee @ ''20,000'') arr)
            \<longleftrightarrow> p \<in> set arr \<and> 10000 \<le> n \<and> n \<le> 20000)
      \<and> (p \<in> set (price_stage (rupee @ ''20,000 - '' @ rupee @ ''30,000'') arr)
            \<longleftrightarrow> p \<in> set arr \<and> 20000 \<le> n \<and> n \<le> 30000)
      \<and> (p \<in> set (price_stage (rupee @ ''30,000 - '' @ rupee @ ''50,000'') arr)
            \<longleftrightarrow> p \<in> set arr \<and> 30000 \<le> n \<and> n \<le> 50000)
      \<and> (p \<in> set (price_stage (rupee @ ''50,000 - '' @ rupee @ ''75,000'') arr)
            \<longleftrightarrow> p \<in> set arr \<and> 50000 \<le> n \<and> n \<le> 75000)
      \<and> (p \<in> set (price_stage (''Above '' @ rupee @ ''75,000'') arr) \<longleftrightarrow> p \<in> set arr \<and> n > 75000)"
    by auto
  from eqs mem opts sub numeric_price_field [of p] show ?thesis by blast
qed

text \<open>
  Concrete prices against their buckets: 15000 passes the second bucket and not the
  first; the boundary 20000 passes the second and the third; 10000 is not under 10000;
  75000 passes the fifth bucket and is not above 75000; 9999.5 is under 10000.
\<close>

theorem price_filter_buckets_witness:
  "prop_metro
       \<in> set (price_stage (rupee @ ''10,000 - '' @ rupee @ ''20,000'') seven_listings)
   \<and> prop_metro
       \<notin> set (price_stage (''Under '' @ rupee @ ''10,000'') seven_listings)
   \<and> prop_pricey
       \<notin> set (price_stage (rupee @ ''10,000 - '' @ rupee @ ''20,000'') seven_listings)
   \<and> prop_pricey
       \<in> set (price_stage (rupee @ ''20,000 - '' @ rupee @ ''30,000'') seven_listings)
   \<and> prop_metro\<lparr>price := PriceNumber 20000\<rparr>
       \<in> set (price_stage (rupee @ ''10,000 - '' @ rupee @ ''20,000'') [prop_metro\<lparr>price := PriceNumber 20000\<rparr>])
   \<and> prop_metro\<lparr>price := PriceNumber 20000\<rparr>
       \<in> set (price_stage (rupee @ ''20,000 - '' @ rupee @ ''30,000'') [prop_metro\<lparr>price := PriceNumber 20000\<rparr>])
   \<and> prop_metro\<lparr>price := PriceNumber 10000\<rparr>
       \<notin> set (price_stage (''Under '' @ rupee @ ''10,000'') [prop_metro\<lparr>price := PriceNumber 10000\<rparr>])
   \<and> prop_metro\<lparr>price := PriceNumber 75000\<rparr>
       \<in> set (price_stage (rupee @ ''50,000 - '' @ rupee @ ''75,000'') [prop_metro\<lparr>price := PriceNumber 75000\<rparr>])
   \<and> prop_metro\<lparr>price := PriceNumber 75000\<rparr>
       \<notin> set (price_stage (''Above '' @ rupee @ ''75,000'') [prop_metro\<lparr>price := PriceNumber 75000\<rparr>])
   \<and> prop_metro\<lparr>price := PriceNumber (19999 / 2)\<rparr>
       \<in> set (price_stage (''Under '' @ rupee @ ''10,000'') [prop_metro\<lparr>price := PriceNumber (19999 / 2)\<rparr>])"
proof -
  have m: "price prop_metro = PriceNumber 15000" "prop_metro \<in> set seven_listings"
    by (simp_all add: prop_metro_def seven_listings_def)
  have p: "price prop_pricey = PriceNumber 25000" "prop_pricey \<in> set seven_listings"
    by (simp_all add: prop_pricey_def seven_listings_def)
  have c1: "prop_metro
       \<in> set (price_stage (rupee @ ''10,000 - '' @ rupee @ ''20,000'') seven_listings)"
  proof -
    from price_filter_buckets [where p = "prop_metro" and n = "15000" and arr = "seven_listings"] m(1)
    have "prop_metro \<in> set (price_stage (rupee @ ''10,000 - '' @ rupee @ ''20,000'') seven_listings)
            \<longleftrightarrow> prop_metro \<in> set seven_listings \<and> (10000::real) \<le> (15000::real) \<and> (15000::real) \<le> (20000::real)"
      by blast
    then show ?thesis using m(2) by simp
  qed
  have c2: "prop_metro
       \<notin> set (price_stage (''Under '' @ rupee @ ''10,000'') seven_listings)"
  proof -
    from price_filter_buckets [where p = "prop_metro" and n = "15000" and arr = "seven_listings"] m(1)
    have "prop_metro \<in> set (price_stage (''Under '' @ rupee @ ''10,000'') seven_listings)
            \<longleftrightarrow> prop_metro \<in> set seven_listings \<and> (15000::real) < (10000::real)"
      by blast
    then show ?thesis using m(2) by simp
  qed
  have c3: "prop_pricey
       \<notin> set (price_stage (rupee @ ''10,000 - '' @ rupee @ ''20,000'') seven_listings)"
  proof -
    from price_filter_buckets [where p = "prop_pricey" and n = "25000" and arr = "seven_listings"] p(1)
    have "prop_pricey \<in> set (price_stage (rupee @ ''10,000 - '' @ rupee @ ''20,000'') seven_listings)
            \<longleftrightarrow> prop_pricey \<in> set seven_listings \<and> (10000::real) \<le> (25000::real) \<and> (25000::real) \<le> (20000::real)"
      by blast
    then show ?thesis using p(2) by simp
  qed
  have c4: "prop_pricey
       \<in> set (price_stage (rupee @ ''20,000 - '' @ rupee @ ''30,000'') seven_listings)"
  proof -
    from price_filter_buckets [where p = "prop_pricey" and n = "25000" and arr = "seven_listings"] p(1)
    have "prop_pricey \<in> set (price_stage (rupee @ ''20,000 - '' @ rupee @ ''30,000'') seven_listings)
            \<longleftrightarrow> prop_pricey \<in> set seven_listings \<and> (20000::real) \<le> (25000::real) \<and> (25000::real) \<le> (30000::real)"
      by blast
    then show ?thesis using p(2) by simp
  qed
  have c5: "prop_metro\<lparr>price := PriceNumber 20000\<rparr>
       \<in> set (price_stage (rupee @ ''10,000 - '' @ rupee @ ''20,000'') [prop_metro\<lparr>price := PriceNumber 20000\<rparr>])"
  proof -
    have pr5: "price (prop_metro\<lparr>price := PriceNumber 20000\<rparr>) = PriceNumber 20000" by simp
    from price_filter_buckets [where p = "prop_metro\<lparr>price := PriceNumber 20000\<rparr>" and n = "20000" and arr = "[prop_metro\<lparr>price := PriceNumber 20000\<rparr>]"] pr5
    have "prop_metro\<lparr>price := PriceNumber 20000\<rparr> \<in> set (price_stage (rupee @ ''10,000 - '' @ rupee @ ''20,000'') [prop_metro\<lparr>price := PriceNumber 20000\<rparr>])
            \<longleftrightarrow> prop_metro\<lparr>price := PriceNumber 20000\<rparr> \<in> set [prop_metro\<lparr>price := PriceNumber 20000\<rparr>] \<and> (10000::real) \<le> (20000::real) \<and> (20000::real) \<le> (20000::real)"
      by blast
    then show ?thesis by simp
  qed
  have c6: "prop_metro\<lparr>price := PriceNumber 20000\<rparr>
       \<in> set (price_stage (rupee @ ''20,000 - '' @ rupee @ ''30,000'') [prop_metro\<lparr>price := PriceNumber 20000\<rparr>])"
  proof -
    have pr6: "price (prop_metro\<lparr>price := PriceNumber 20000\<rparr>) = PriceNumber 20000" by simp
    from price_filter_buckets [where p = "prop_metro\<lparr>price := PriceNumber 20000\<rparr>" and n = "20000" and arr = "[prop_metro\<lparr>price := PriceNumber 20000\<rparr>]"] pr6
    have "prop_metro\<lparr>price := PriceNumber 20000\<rparr> \<in> set (price_stage (rupee @ ''20,000 - '' @ rupee @ ''30,000'') [prop_metro\<lparr>price := PriceNumber 20000\<rparr>])
            \<longleftrightarrow> prop_metro\<lparr>price := PriceNumber 20000\<rparr> \<in> set [prop_metro\<lparr>price := PriceNumber 20000\<rparr>] \<and> (20000::real) \<le> (20000::real) \<and> (20000::real) \<le> (30000::real)"
      by blast
    then show ?thesis by simp
  qed
  have c7: "prop_metro\<lparr>price := PriceNumber 10000\<rparr>
       \<notin> set (price_stage (''Under '' @ rupee @ ''10,000'') [prop_metro\<lparr>price := PriceNumber 10000\<rparr>])"
  proof -
    have pr7: "price (prop_metro\<lparr>price := PriceNumber 10000\<rparr>) = PriceNumber 10000" by simp
    from price_filter_buckets [where p = "prop_metro\<lparr>price := PriceNumber 10000\<rparr>" and n = "10000" and arr = "[prop_metro\<lparr>price := PriceNumber 10000\<rparr>]"] pr7
    have "prop_metro\<lparr>price := PriceNumber 10000\<rparr> \<in> set (price_stage (''Under '' @ rupee @ ''10,000'') [prop_metro\<lparr>price := PriceNumber 10000\<rparr>])
            \<longleftrightarrow> prop_metro\<lparr>price := PriceNumber 10000\<rparr> \<in> set [prop_metro\<lparr>price := PriceNumber 10000\<rparr>] \<and> (10000::real) < (10000::real)"
      by blast
    then show ?thesis by simp
  qed
  have c8: "prop_metro\<lparr>price := PriceNumber 75000\<rparr>
       \<in> set (price_stage (rupee @ ''50,000 - '' @ rupee @ ''75,000'') [prop_metro\<lparr>price := PriceNumber 75000\<rparr>])"
  proof -
    have pr8: "price (prop_metro\<lparr>price := PriceNumber 75000\<rparr>) = PriceNumber 75000" by simp
    from price_filter_buckets [where p = "prop_metro\<lparr>price := PriceNumber 75000\<rparr>" and n = "75000" and arr = "[prop_metro\<lparr>price := PriceNumber 75000\<rparr>]"] pr8
    have "prop_metro\<lparr>price := PriceNumber 75000\<rparr> \<in> set (price_stage (rupee @ ''50,000 - '' @ rupee @ ''75,000'') [prop_metro\<lparr>price := PriceNumber 75000\<rparr>])
            \<longleftrightarrow> prop_metro\<lparr>price := PriceNumber 75000\<rparr> \<in> set [prop_metro\<lparr>price := PriceNumber 75000\<rparr>] \<and> (50000::real) \<le> (75000::real) \<and> (75000::real) \<le> (75000::real)"
      by blast
    then show ?thesis by simp
  qed
  have c9: "prop_metro\<lparr>price := PriceNumber 75000\<rparr>
       \<notin> set (price_stage (''Above '' @ rupee @ ''75,000'') [prop_metro\<lparr>price := PriceNumber 75000\<rparr>])"
  proof -
    have pr9: "price (prop_metro\<lparr>price := PriceNumber 75000\<rparr>) = PriceNumber 75000" by simp
    from price_filter_buckets [where p = "prop_metro\<lparr>price := PriceNumber 75000\<rparr>" and n = "75000" and arr = "[prop_metro\<lparr>price := PriceNumber 75000\<rparr>]"] pr9
    have "prop_metro\<lparr>price := PriceNumber 75000\<rparr> \<in> set (price_stage (''Above '' @ rupee @ ''75,000'') [prop_metro\<lparr>price := PriceNumber 75000\<rparr>])
            \<longleftrightarrow> prop_metro\<lparr>price := PriceNumber 75000\<rparr> \<in> set [prop_metro\<lparr>price := PriceNumber 75000\<rparr>] \<and> (75000::real) > (75000::real)"
      by blast
    then show ?thesis by simp
  qed
  have c10: "prop_metro\<lparr>price := PriceNumber (19999 / 2)\<rparr>
       \<in> set (price_stage (''Under '' @ rupee @ ''10,000'') [prop_metro\<lparr>price := PriceNumber (19999 / 2)\<rparr>])"
  proof -
    have pr10: "price (prop_metro\<lparr>price := PriceNumber (19999 / 2)\<rparr>) = PriceNumber (19999 / 2)" by simp
    from price_filter_buckets [where p = "prop_metro\<lparr>price := PriceNumber (19999 / 2)\<rparr>" and n = "(19999 / 2)" and arr = "[prop_metro\<lparr>price := PriceNumber (19999 / 2)\<rparr>]"] pr10
    have "prop_metro\<lparr>price := PriceNumber (19999 / 2)\<rparr> \<in> set (price_stage (''Under '' @ rupee @ ''10,000'') [prop_metro\<lparr>price := PriceNumber (19999 / 2)\<rparr>])
            \<longleftrightarrow> prop_metro\<lparr>price := PriceNumber (19999 / 2)\<rparr> \<in> set [prop_metro\<lparr>price := PriceNumber (19999 / 2)\<rparr>] \<and> (19999 / 2 :: real) < (10000::real)"
      by blast
    then show ?thesis by simp
  qed
  from c1 c2 c3 c4 c5 c6 c7 c8 c9 c10 show ?thesis by blast
qed

subsection \<open>The nearby facet\<close>

lemma startsWith_iff: "startsWith s p \<longleftrightarrow> (\<exists>b. s = p @ b)"
  unfolding startsWith_def
  by (metis append_eq_conv_conj append_take_drop_id)

lemma str_includes_iff: "str_includes s t \<longleftrightarrow> (\<exists>a b. s = a @ t @ b)"
proof (induction s)
  case Nil
  then show ?case by simp
next
  case (Cons c cs)
  show ?case
  proof
    assume "str_includes (c # cs) t"
    then consider "startsWith (c # cs) t" | "str_includes cs t" by auto
    then show "\<exists>a b. c # cs = a @ t @ b"
    proof cases
      case 1
      then obtain b where "c # cs = t @ b" by (auto simp: startsWith_iff)
      then have "c # cs = [] @ t @ b" by simp
      then show ?thesis by blast
    next
      case 2
      then obtain a b where "cs = a @ t @ b" using Cons.IH by blast
      then have "c # cs = (c # a) @ t @ b" by simp
      then show ?thesis by blast
    qed
  next
    assume "\<exists>a b. c # cs = a @ t @ b"
    then obtain a b where e: "c # cs = a @ t @ b" by blast
    show "str_includes (c # cs) t"
    proof (cases a)
      case Nil
      with e have "startsWith (c # cs) t" by (auto simp: startsWith_iff)
      then show ?thesis by simp
    next
      case (Cons x xs)
      with e have "cs = xs @ t @ b" by simp
      then have "str_includes cs t" using Cons.IH by blast
      then show ?thesis by simp
    qed
  qed
qed

lemma trim_sublist: "\<exists>a b. s = a @ trim s @ b"
proof -
  obtain a where a: "s = a @ dropWhile is_space s"
    by (metis takeWhile_dropWhile_id)
  define u where "u = dropWhile is_space s"
  obtain b' where "rev u = b' @ dropWhile is_space (rev u)"
    by (metis takeWhile_dropWhile_id)
  then have "u = rev (dropWhile is_space (rev u)) @ rev b'"
    by (metis rev_append rev_rev_ident)
  then have "u = trim s @ rev b'" by (simp add: trim_def u_def)
  with a show ?thesis unfolding u_def by metis
qed

lemma spec_nearby_feature_implies_code:
  assumes "spec_nearby_feature v f"
  shows "nearby_feature (toLowerCase (trim v)) f"
proof -
  define k where "k = length ''nearby:''"
  let ?nb = "toLowerCase (trim v)"
  from assms have p: "startsWith (toLowerCase f) ''nearby:''"
    and i: "str_includes (toLowerCase (trim (drop k f))) ?nb"
    unfolding spec_nearby_feature_def k_def by blast+
  obtain a b where "drop k f = a @ trim (drop k f) @ b" using trim_sublist by blast
  then have "f = (take k f @ a) @ trim (drop k f) @ b"
    by (metis append.assoc append_take_drop_id)
  then have f: "toLowerCase f = toLowerCase (take k f @ a) @ toLowerCase (trim (drop k f)) @ toLowerCase b"
    unfolding toLowerCase_def by (metis map_append)
  from i obtain c d where "toLowerCase (trim (drop k f)) = c @ ?nb @ d"
    by (auto simp: str_includes_iff)
  with f have "toLowerCase f = (toLowerCase (take k f @ a) @ c) @ ?nb @ (d @ toLowerCase b)"
    by simp
  then have "str_includes (toLowerCase f) ?nb" unfolding str_includes_iff by blast
  with p show ?thesis by (simp add: nearby_feature_def Let_def)
qed

lemma spec_nearby_implies_code:
  "spec_nearby_matches v it \<Longrightarrow> nearby_matches (toLowerCase (trim v)) it"
  unfolding spec_nearby_matches_def nearby_matches_def list_ex_iff
  by (cases "features it") (auto dest: spec_nearby_feature_implies_code)

text \<open>
  Claim C9, evaluated on the code. The nearby predicate searches the whole lower-cased
  entry, prefix included, for the filter value. With the two example properties the
  catalog offers the value \<open>Near\<close>; selecting it keeps both properties, although the
  text after the prefix of the first one, \<open>Metro Station\<close>, does not contain it. Only
  the other direction holds in general (\<open>spec_nearby_implies_code\<close>).
\<close>

theorem nearby_matches_text_of_prefix:
  "filteredListings (no_filters\<lparr>nearby := ''Near''\<rparr>) [prop_metro, prop_near] = [prop_metro, prop_near]
   \<and> \<not> spec_nearby_matches ''Near'' prop_metro
   \<and> spec_nearby_matches ''Near'' prop_near
   \<and> catalog_nearby [prop_metro, prop_near] = [''Metro Station'', ''Near'']"
  by code_simp

subsection \<open>All facets together\<close>

lemma trim_Nil: "trim [] = []"
  by (simp add: trim_def)

lemma facet_active_blank: "facet_active v = (\<not> blank v)"
  by (auto simp: facet_active_def blank_def trim_Nil)

lemma toLowerCase_Nil_iff: "toLowerCase s = [] \<longleftrightarrow> s = []"
  by (simp add: toLowerCase_def)

lemma toLowerCase_Nil: "toLowerCase [] = []"
  by (simp add: toLowerCase_def)

lemma price_ok_spec:
  "label \<in> set PRICE_RANGES \<Longrightarrow> price_ok label it = spec_price_matches label it"
  by (auto simp: PRICE_RANGES_def price_ok_def price_bucket_def spec_price_matches_def
      spec_in_bucket_def rupee_def numeric_price_field)

lemma room_matches_spec: "room_matches (toLowerCase (trim v)) it = spec_room_matches v it"
  by (cases "property_type it")
     (auto simp: room_matches_def spec_room_matches_def UI_ROOM_TYPES_def toLowerCase_def
        lower_char_def Let_def)

lemma location_matches_spec:
  "\<not> blank v \<Longrightarrow> location_matches (toLowerCase (trim v)) it = spec_location_matches v it"
  by (auto simp: location_matches_def spec_location_matches_def city_of_def blank_def
      toLowerCase_Nil_iff toLowerCase_Nil split: option.splits)

lemma restriction_matches_spec:
  "restriction_matches (toLowerCase (trim v)) it = spec_restriction_matches v it"
  by (simp add: restriction_matches_def spec_restriction_matches_def)

lemma spec_implies_passes:
  assumes "priceRange f \<in> set ([] # PRICE_RANGES)" and "spec_matches_all f it"
  shows "passes_all_stages f it"
  using assms
  by (auto simp: passes_all_stages_def spec_matches_all_def facet_active_blank price_ok_spec
      room_matches_spec location_matches_spec restriction_matches_spec spec_nearby_implies_code)

lemma passes_iff_spec:
  assumes "priceRange f \<in> set ([] # PRICE_RANGES)" and "blank (nearby f)"
  shows "passes_all_stages f it = spec_matches_all f it"
  using assms
  by (auto simp: passes_all_stages_def spec_matches_all_def facet_active_blank price_ok_spec
      room_matches_spec location_matches_spec restriction_matches_spec)

text \<open>
  Claim C1, evaluated on the code. For a price selection the selector can make,
  every property that satisfies all facets that are not left empty is in
  \<open>filteredListings\<close>; and when the nearby facet is left empty, \<open>filteredListings\<close> is
  exactly the list of these properties, so price, room type, location and restrictions
  combine by conjunction. With a nearby facet the result can hold more: for the location
  \<open>Jaipur\<close> and the nearby value \<open>Near\<close> the code keeps \<open>prop_metro\<close>, whose nearby tag
  \<open>Metro Station\<close> does not contain the value, beside \<open>prop_near\<close>, the only property
  that satisfies both facets. On the seven example properties the nearby value
  \<open>Metro Station\<close>, alone or with the four other facets, selects the same properties
  in the code as in the specification.
\<close>

theorem filteredListings_against_facets:
  "(priceRange f \<in> set ([] # PRICE_RANGES) \<and> blank (nearby f)
      \<longrightarrow> filteredListings f ls = filter (spec_matches_all f) ls)
   \<and> (priceRange f \<in> set ([] # PRICE_RANGES)
      \<longrightarrow> set (filter (spec_matches_all f) ls) \<subseteq> set (filteredListings f ls))
   \<and> filteredListings example_filters seven_listings
       = filter (spec_matches_all example_filters) seven_listings
   \<and> filteredListings (only_nearby example_filters) seven_listings
       = filter (spec_matches_all (only_nearby example_filters)) seven_listings
   \<and> filteredListings near_filters [prop_metro, prop_near, prop_delhi] = [prop_metro, prop_near]
   \<and> filter (spec_matches_all near_filters) [prop_metro, prop_near, prop_delhi] = [prop_near]"
proof -
  have x: "filteredListings example_filters seven_listings
       = filter (spec_matches_all example_filters) seven_listings"
    "filteredListings (only_nearby example_filters) seven_listings
       = filter (spec_matches_all (only_nearby example_filters)) seven_listings"
    by code_simp+
  have a: "priceRange f \<in> set ([] # PRICE_RANGES) \<and> blank (nearby f)
      \<longrightarrow> filteredListings f ls = filter (spec_matches_all f) ls"
    unfolding filteredListings_filter
    by (auto intro!: filter_cong simp: passes_iff_spec)
  have b: "priceRange f \<in> set ([] # PRICE_RANGES)
      \<longrightarrow> set (filter (spec_matches_all f) ls) \<subseteq> set (filteredListings f ls)"
    unfolding filteredListings_filter
    using spec_implies_passes [of f] by auto
  have c: "filteredListings near_filters [prop_metro, prop_near, prop_delhi] = [prop_metro, prop_near]"
    by code_simp
  have d: "filter (spec_matches_all near_filters) [prop_metro, prop_near, prop_delhi] = [prop_near]"
    by code_simp
  from a b c d x show ?thesis by blast
qed

text \<open>
  Seven example properties, six of which differ from the first in one respect each.
  With the four facets other than nearby selected, each facet removes the property
  that differs in it, and the code returns the two properties that satisfy all four.
  With all five facets selected, the property that satisfies them is returned.
\<close>

theorem filteredListings_against_facets_witness:
  "filteredListings (example_filters\<lparr>nearby := []\<rparr>) seven_listings = [prop_metro, prop_mall]
   \<and> filter (spec_matches_all (example_filters\<lparr>nearby := []\<rparr>)) seven_listings = [prop_metro, prop_mall]
   \<and> filter (spec_matches_all example_filters) seven_listings = [prop_metro]
   \<and> filteredListings example_filters seven_listings = [prop_metro]
   \<and> filteredListings (only_nearby example_filters) seven_listings
       = [prop_metro, prop_delhi, prop_house, prop_pricey, prop_students]
   \<and> filter (spec_matches_all (only_price example_filters)) seven_listings
       = [prop_metro, prop_delhi, prop_house, prop_students, prop_mall]
   \<and> filter (spec_matches_all (only_roomType example_filters)) seven_listings
       = [prop_metro, prop_delhi, prop_pricey, prop_students, prop_mall]
   \<and> filter (spec_matches_all (only_location example_filters)) seven_listings
       = [prop_metro, prop_near, prop_house, prop_pricey, prop_students, prop_mall]
   \<and> filter (spec_matches_all (only_restrictions example_filters)) seven_listings
       = [prop_metro, prop_delhi, prop_house, prop_pricey, prop_mall]"
proof -
  have h: "priceRange (example_filters\<lparr>nearby := []\<rparr>) \<in> set ([] # PRICE_RANGES)"
    "blank (nearby (example_filters\<lparr>nearby := []\<rparr>))"
    "priceRange example_filters \<in> set ([] # PRICE_RANGES)"
    by (simp_all add: example_filters_def PRICE_RANGES_def blank_def trim_Nil)
  have s4: "filter (spec_matches_all (example_filters\<lparr>nearby := []\<rparr>)) seven_listings
              = [prop_metro, prop_mall]"
    by code_simp
  have s5: "filter (spec_matches_all example_filters) seven_listings = [prop_metro]"
    by code_simp
  have o: "filter (spec_matches_all (only_price example_filters)) seven_listings
       = [prop_metro, prop_delhi, prop_house, prop_students, prop_mall]"
    "filter (spec_matches_all (only_roomType example_filters)) seven_listings
       = [prop_metro, prop_delhi, prop_pricey, prop_students, prop_mall]"
    "filter (spec_matches_all (only_location example_filters)) seven_listings
       = [prop_metro, prop_near, prop_house, prop_pricey, prop_students, prop_mall]"
    "filter (spec_matches_all (only_restrictions example_filters)) seven_listings
       = [prop_metro, prop_delhi, prop_house, prop_pricey, prop_mall]"
    by code_simp+
  from filteredListings_against_facets [of "example_filters\<lparr>nearby := []\<rparr>" seven_listings] h
  have e: "filteredListings (example_filters\<lparr>nearby := []\<rparr>) seven_listings
             = filter (spec_matches_all (example_filters\<lparr>nearby := []\<rparr>)) seven_listings"
    by blast
  have sn: "filter (spec_matches_all (only_nearby example_filters)) seven_listings
       = [prop_metro, prop_delhi, prop_house, prop_pricey, prop_students]"
    by code_simp
  from filteredListings_against_facets [of example_filters seven_listings]
  have i: "filteredListings example_filters seven_listings
             = filter (spec_matches_all example_filters) seven_listings"
    and j: "filteredListings (only_nearby example_filters) seven_listings
             = filter (spec_matches_all (only_nearby example_filters)) seven_listings"
    by blast+
  from e i j s4 s5 sn o show ?thesis by simp
qed

subsection \<open>Option catalogs\<close>

lemma catalogs_fetchProperties: "catalogs (fetchProperties sr ar st) = catalogs st"
  by (simp add: fetchProperties_def catalogs_def Let_def split: sum.splits)

lemma catalogs_setFilters: "catalogs (setFilters f sr ar st) = catalogs st"
  by (simp add: setFilters_def catalogs_fetchProperties) (simp add: catalogs_def)

lemma catalogs_filter_step: "catalogs (filter_step st e) = catalogs st"
  by (cases e) (simp_all add: clearFilters_def catalogs_setFilters)

lemma catalogs_run: "catalogs (run_filter_events es st) = catalogs st"
  unfolding run_filter_events_def
  by (induction es arbitrary: st) (simp_all add: catalogs_filter_step)

lemma catalogs_catalogEffect:
  "catalogs (catalogEffect (Inr d) st) =
     (catalog_locations (data_array d), catalog_nearby (data_array d),
      catalog_types (data_array d), catalog_restrictions (data_array d))"
  by (simp add: catalogEffect_def catalogs_def Let_def)

lemma set_sorted_unique: "set (sorted_unique xs) = set xs"
  by (simp add: sorted_unique_def)

lemma set_truthy_strings: "set (truthy_strings xs) = {s. s \<noteq> [] \<and> Some s \<in> set xs}"
  by (induction xs) (auto simp: truthy_strings_def split: option.splits)

lemma catalog_types_contents:
  "set (catalog_types arr) = {t. t \<noteq> [] \<and> (\<exists>it \<in> set arr. property_type it = Some t)}"
  by (force simp: catalog_types_def set_sorted_unique set_truthy_strings)

lemma catalog_locations_contents:
  "set (catalog_locations arr) =
     {c. c \<noteq> [] \<and> (\<exists>it \<in> set arr. \<exists>a. prop_address it = Some a \<and> city a = Some c)}"
  by (force simp: catalog_locations_def set_sorted_unique set_truthy_strings split: option.splits)

lemma catalog_nearby_contents:
  "set (catalog_nearby arr) =
     {v. v \<noteq> [] \<and> (\<exists>f \<in> set (featuresRaw arr). tag_matches ''nearby'' f \<and> v = trim (after_first_colon f))}"
  by (auto simp: catalog_nearby_def set_sorted_unique)

lemma catalog_restrictions_contents:
  "set (catalog_restrictions arr) =
     {v. v \<noteq> [] \<and> (\<exists>f \<in> set (featuresRaw arr).
            \<not> tag_matches ''nearby'' f \<and> \<not> tag_matches ''location'' f \<and> v = trim f)}"
  by (auto simp: catalog_restrictions_def set_sorted_unique)

text \<open>
  Claim C8. The mount effect sets the four option catalogs from the array returned by
  the unparameterised \<open>GET /properties/\<close>: cities, the text of the nearby tags, property
  types and the feature tags that are not reserved (their contents are the lemmas
  \<open>catalog_locations_contents\<close>, \<open>catalog_nearby_contents\<close>, \<open>catalog_types_contents\<close> and
  \<open>catalog_restrictions_contents\<close>). No sequence of changes of the filter selection, with
  whatever the server answers to the searches they trigger, changes the catalogs; and
  what the mount effect computes does not depend on the filters selected before it.
\<close>

theorem catalogs_invariant_under_filters:
  "catalogs (catalogEffect (Inr d) st) =
     (catalog_locations (data_array d), catalog_nearby (data_array d),
      catalog_types (data_array d), catalog_restrictions (data_array d))
   \<and> catalogs (run_filter_events es st) = catalogs st
   \<and> catalogs (run_filter_events es (catalogEffect (Inr d) st)) =
     (catalog_locations (data_array d), catalog_nearby (data_array d),
      catalog_types (data_array d), catalog_restrictions (data_array d))
   \<and> catalogs (catalogEffect res (run_filter_events es st)) = catalogs (catalogEffect res st)"
proof -
  have "catalogs (catalogEffect res (run_filter_events es st)) = catalogs (catalogEffect res st)"
    using catalogs_run [of es st]
    by (cases res) (simp_all add: catalogEffect_def catalogs_def Let_def)
  then show ?thesis
    by (simp add: catalogs_run catalogs_catalogEffect)
qed

subsection \<open>Contact submission\<close>

lemma ceil_div_bounds:
  "1000 * (ceil_div a 1000 - 1) < a \<and> a \<le> 1000 * ceil_div a 1000"
proof -
  define q where "q = (- a) div 1000"
  define r where "r = (- a) mod 1000"
  have e: "- a = 1000 * q + r" unfolding q_def r_def by simp
  have b: "0 \<le> r" "r < 1000" unfolding r_def by simp_all
  have "1000 * (- q - 1) < a" using e b by simp
  moreover have "a \<le> 1000 * - q" using e b by simp
  ultimately show ?thesis unfolding ceil_div_def q_def by simp
qed

lemma example_contact_listing:
  "contactListing example_contact = Some \<lparr>lr_id = ''p1'', lr_title = Some ''Flat near metro''\<rparr>"
  by (simp add: example_contact_def)

lemma example_contact_last:
  "last_submit (localStorage example_contact) = Some 1700000000000"
  by (simp add: last_submit_def example_contact_def RATE_KEY_def Number_of_string_def trim_def
      is_space_def is_digit_def nat_of_digits_def digit_val_def)

lemma example_contact_valid:
  "\<not> missing_fields example_contact" "\<not> invalid_phone example_contact"
  "\<not> honeypot_filled example_contact"
  by (simp_all add: missing_fields_def invalid_phone_def honeypot_filled_def example_contact_def
      trim_def is_space_def isValidPhone_def is_digit_def)

text \<open>
  Claim C7. Let the modal be open on a listing and let the stored timestamp read as
  \<open>lastv\<close>. A submission less than 60000 ms after \<open>lastv\<close> sends no request and only sets
  the error to \<open>Please wait Ns before submitting again.\<close>, where \<open>N\<close> is the remaining
  time rounded up to whole seconds. Once 60000 ms or more have passed, a submission with
  name, email and a valid phone, and an empty honeypot, sends its request.
\<close>

theorem rate_limit_blocks_within_interval:
  assumes "contactListing st = Some listing"
      and "last_submit (localStorage st) = Some lastv"
  shows "(now - lastv < 60000 \<longrightarrow>
            submitContact now post_result now2 set_ok st =
              (st\<lparr>contactSubmitting := False,
                  contactError := ''Please wait '' @ string_of_int (ceil_div (60000 - (now - lastv)) 1000)
                                    @ ''s before submitting again.'',
                  contactSuccess := []\<rparr>, [])
            \<and> 1000 * (ceil_div (60000 - (now - lastv)) 1000 - 1) < 60000 - (now - lastv)
            \<and> 60000 - (now - lastv) \<le> 1000 * ceil_div (60000 - (now - lastv)) 1000)
         \<and> (now - lastv \<ge> 60000 \<and> \<not> missing_fields st \<and> \<not> invalid_phone st \<and> \<not> honeypot_filled st \<longrightarrow>
            snd (submitContact now post_result now2 set_ok st) = [contact_request_of st listing])"
  using assms ceil_div_bounds [of "60000 - (now - lastv)"]
  by (simp add: submitContact_def rate_limited_def RATE_LIMIT_MS_def wait_message_def Let_def
      missing_fields_def invalid_phone_def honeypot_filled_def contact_request_of_def
      split: sum.splits)

text \<open>
  With the timestamp 1700000000000 stored, a submission 30 s later is blocked with
  \<open>Please wait 30s before submitting again.\<close>, and one 60 s later is sent.
\<close>

theorem rate_limit_blocks_within_interval_witness:
  "submitContact 1700000030000 (Inr ()) 1700000030500 True example_contact =
     (example_contact\<lparr>contactSubmitting := False,
        contactError := ''Please wait 30s before submitting again.'', contactSuccess := []\<rparr>, [])
   \<and> snd (submitContact 1700000060000 (Inr ()) 1700000060500 True example_contact) =
       [ContactPost ''/contact/submit''
          \<lparr>cp_name = ''Asha'', cp_email = ''asha@example.com'', cp_phone = ''9876543210'',
           cp_listing_id = ''p1'', cp_property_id = ''p1'',
           cp_message = ''Inquiry for listing p1: Flat near metro''\<rparr>]"
proof -
  have r: "contact_request_of example_contact \<lparr>lr_id = ''p1'', lr_title = Some ''Flat near metro''\<rparr> =
       ContactPost ''/contact/submit''
          \<lparr>cp_name = ''Asha'', cp_email = ''asha@example.com'', cp_phone = ''9876543210'',
           cp_listing_id = ''p1'', cp_property_id = ''p1'',
           cp_message = ''Inquiry for listing p1: Flat near metro''\<rparr>"
    by (simp add: contact_request_of_def example_contact_def trim_def is_space_def inquiry_message_def)
  show ?thesis
    using rate_limit_blocks_within_interval [OF example_contact_listing example_contact_last,
        of 1700000030000 "Inr ()" 1700000030500 True]
      rate_limit_blocks_within_interval [OF example_contact_listing example_contact_last,
        of 1700000060000 "Inr ()" 1700000060500 True]
      example_contact_valid
    by (simp add: ceil_div_def string_of_int_def string_of_nat.simps digit_char_def r)
qed

lemma storage_frame:
  "localStorage (fst (submitContact now post_result now2 set_ok st)) =
     (if contactListing st \<noteq> None \<and> \<not> rate_limited now (last_submit (localStorage st))
         \<and> \<not> missing_fields st \<and> \<not> invalid_phone st \<and> \<not> honeypot_filled st
         \<and> post_result = Inr () \<and> set_ok
      then (localStorage st)(RATE_KEY \<mapsto> string_of_int now2)
      else localStorage st)"
  by (cases "contactListing st"; cases post_result)
     (simp_all add: submitContact_def Let_def missing_fields_def invalid_phone_def honeypot_filled_def)

lemma requests_sent:
  "snd (submitContact now post_result now2 set_ok st) =
     (case contactListing st of
        None \<Rightarrow> []
      | Some listing \<Rightarrow>
          if rate_limited now (last_submit (localStorage st)) \<or> missing_fields st
             \<or> invalid_phone st \<or> honeypot_filled st
          then [] else [contact_request_of st listing])"
  by (cases "contactListing st"; cases post_result)
     (simp_all add: submitContact_def Let_def missing_fields_def invalid_phone_def honeypot_filled_def
        contact_request_of_def)

text \<open>
  Claim C10. Every early exit of \<open>submitContact\<close> (the rate-limit block, a missing name,
  email or phone, an invalid phone, a filled honeypot, no listing selected) sends no
  request and leaves the local storage as it was; so does a request that fails. If the
  storage changed, the request was sent and succeeded, and the only change is the
  timestamp written under \<open>contact_last_submit\<close>.
\<close>

theorem timestamp_written_only_on_success:
  "(rate_limited now (last_submit (localStorage st)) \<or> missing_fields st \<or> invalid_phone st
      \<or> honeypot_filled st \<or> contactListing st = None
     \<longrightarrow> localStorage (fst (submitContact now post_result now2 set_ok st)) = localStorage st
         \<and> snd (submitContact now post_result now2 set_ok st) = [])
   \<and> (post_result = Inl err
     \<longrightarrow> localStorage (fst (submitContact now post_result now2 set_ok st)) = localStorage st)
   \<and> (localStorage (fst (submitContact now post_result now2 set_ok st)) \<noteq> localStorage st
     \<longrightarrow> post_result = Inr ()
         \<and> length (snd (submitContact now post_result now2 set_ok st)) = 1
         \<and> localStorage (fst (submitContact now post_result now2 set_ok st))
             = (localStorage st)(RATE_KEY \<mapsto> string_of_int now2))"
  by (auto simp: storage_frame requests_sent split: option.splits)

text \<open>
  On the example state: a blocked attempt and a failed request keep the stored
  timestamp 1700000000000, a successful request replaces it by the time of its success.
\<close>

theorem timestamp_written_only_on_success_witness:
  "rate_limited 1700000030000 (last_submit (localStorage example_contact))
   \<and> localStorage (fst (submitContact 1700000030000 (Inr ()) 1700000030500 True example_contact))
       = localStorage example_contact
   \<and> localStorage (fst (submitContact 1700000060000
         (Inl \<lparr>ce_message = Some ''Network Error'', ce_data = None\<rparr>) 1700000060500 True example_contact))
       = localStorage example_contact
   \<and> localStorage (fst (submitContact 1700000060000 (Inr ()) 1700000060500 True example_contact))
       \<noteq> localStorage example_contact
   \<and> localStorage (fst (submitContact 1700000060000 (Inr ()) 1700000060500 True example_contact))
       = (localStorage example_contact)(RATE_KEY \<mapsto> ''1700000060500'')"
proof -
  have b: "rate_limited 1700000030000 (last_submit (localStorage example_contact))"
    by (simp add: example_contact_last rate_limited_def RATE_LIMIT_MS_def)
  have nb: "\<not> rate_limited 1700000060000 (last_submit (localStorage example_contact))"
    by (simp add: example_contact_last rate_limited_def RATE_LIMIT_MS_def)
  have s: "string_of_int 1700000060500 = ''1700000060500''"
    by (simp add: string_of_int_def string_of_nat.simps digit_char_def)
  have "((localStorage example_contact)(RATE_KEY \<mapsto> ''1700000060500'')) RATE_KEY
          \<noteq> (localStorage example_contact) RATE_KEY"
    by (simp add: example_contact_def)
  then have d: "(localStorage example_contact)(RATE_KEY \<mapsto> ''1700000060500'') \<noteq> localStorage example_contact"
    by metis
  have c: "localStorage (fst (submitContact 1700000060000 (Inr ()) 1700000060500 True example_contact))
       \<noteq> localStorage example_contact"
    using d nb example_contact_valid
    by (simp add: storage_frame example_contact_listing s)
  show ?thesis
    using b c s
      timestamp_written_only_on_success [of 1700000030000 example_contact "Inr ()" 1700000030500 True]
      timestamp_written_only_on_success [of 1700000060000 example_contact
        "Inl \<lparr>ce_message = Some ''Network Error'', ce_data = None\<rparr>" 1700000060500 True
        "\<lparr>ce_message = Some ''Network Error'', ce_data = None\<rparr>"]
      timestamp_written_only_on_success [of 1700000060000 example_contact "Inr ()" 1700000060500 True]
    by simp
qed

section \<open>Properties of the admin components\<close>

subsection \<open>Vocabulary of the new-listing form\<close>

lemma bedroomsFromSize_bhk: "n < 10 \<Longrightarrow> bedroomsFromSize (digit_char n # '' BHK'') = Some n"
proof -
  assume "n < 10"
  then have "n \<in> {0, 1, 2, 3, 4, 5, 6, 7, 8, 9}" by auto
  then show ?thesis
    by (auto simp: bedroomsFromSize_def digit_char_def digit_val_def is_digit_def is_space_def
        toLowerCase_def lower_char_def)
qed

text \<open>
  Claim C3. In the payload that \<open>submit\<close> posts, the property type \<open>Flat\<close> or
  \<open>Apartment\<close> becomes \<open>apartment\<close> and the status \<open>Not Available\<close> becomes \<open>off_market\<close>;
  and with no bedrooms typed in, the size \<open>2 BHK\<close> gives two bedrooms. In general
  \<open>N BHK\<close> gives \<open>N\<close>: for each of the five sizes the size selector offers, and for
  every digit \<open>N\<close> from 1 to 9.
\<close>

theorem admin_vocabulary_mapping:
  "(property_type_ui form = ''Flat'' \<or> property_type_ui form = ''Apartment''
      \<longrightarrow> p_property_type (build_payload form) = ''apartment'')
   \<and> (status_ui form = ''Not Available'' \<longrightarrow> p_status (build_payload form) = ''off_market'')
   \<and> (bedrooms form = [] \<and> size_ui form = ''2 BHK'' \<longrightarrow> p_bedrooms (build_payload form) = Num 2)
   \<and> (bedrooms form = [] \<and> size_ui form = digit_char n # '' BHK'' \<and> 1 \<le> n \<and> n \<le> 9
      \<longrightarrow> p_bedrooms (build_payload form) = Num n)
   \<and> map (\<lambda>s. p_bedrooms (build_payload (form\<lparr>bedrooms := [], size_ui := s\<rparr>))) UI_SIZES
       = [Num 1, Num 2, Num 3, Num 4, Num 5]
   \<and> (\<exists>url auth. hd (snd (submit token create_res upload_res put_res st))
                    = Create url auth (build_payload (nl_form st)))"
proof -
  have u: "map (\<lambda>s. p_bedrooms (build_payload (form\<lparr>bedrooms := [], size_ui := s\<rparr>))) UI_SIZES
       = [Num 1, Num 2, Num 3, Num 4, Num 5]"
    by (simp add: UI_SIZES_def build_payload_def payload_bedrooms_def bedroomsFromSize_def
        digit_val_def is_digit_def is_space_def toLowerCase_def lower_char_def)
  have a: "property_type_ui form = ''Flat'' \<or> property_type_ui form = ''Apartment''
      \<longrightarrow> p_property_type (build_payload form) = ''apartment''"
    by (auto simp: build_payload_def mapPropertyTypeToBackend_def toLowerCase_def lower_char_def)
  have b: "status_ui form = ''Not Available'' \<longrightarrow> p_status (build_payload form) = ''off_market''"
    by (auto simp: build_payload_def mapStatusToBackend_def toLowerCase_def lower_char_def)
  have d: "bedrooms form = [] \<and> size_ui form = digit_char n # '' BHK'' \<and> 1 \<le> n \<and> n \<le> 9
      \<longrightarrow> p_bedrooms (build_payload form) = Num n"
    by (auto simp: build_payload_def payload_bedrooms_def bedroomsFromSize_bhk)
  have c: "bedrooms form = [] \<and> size_ui form = ''2 BHK'' \<longrightarrow> p_bedrooms (build_payload form) = Num 2"
    using bedroomsFromSize_bhk [of 2]
    by (auto simp: build_payload_def payload_bedrooms_def digit_char_def)
  have e: "\<exists>url auth. hd (snd (submit token create_res upload_res put_res st))
                    = Create url auth (build_payload (nl_form st))"
    by (cases create_res)
       (auto simp: submit_def Let_def split: sum.splits prod.splits)
  from a b c d e u show ?thesis by blast
qed

text \<open>
  The form as it is first shown, with \<open>Flat\<close>, \<open>Not Available\<close> and \<open>2 BHK\<close> selected.
\<close>

theorem admin_vocabulary_mapping_witness:
  "p_property_type (build_payload
       (initial_form\<lparr>property_type_ui := ''Flat'', status_ui := ''Not Available'', size_ui := ''2 BHK''\<rparr>))
     = ''apartment''
   \<and> p_status (build_payload
       (initial_form\<lparr>property_type_ui := ''Flat'', status_ui := ''Not Available'', size_ui := ''2 BHK''\<rparr>))
     = ''off_market''
   \<and> p_bedrooms (build_payload
       (initial_form\<lparr>property_type_ui := ''Flat'', status_ui := ''Not Available'', size_ui := ''2 BHK''\<rparr>))
     = Num 2"
  using admin_vocabulary_mapping
    [of "initial_form\<lparr>property_type_ui := ''Flat'', status_ui := ''Not Available'', size_ui := ''2 BHK''\<rparr>" 2]
  by (simp add: initial_form_def digit_char_def)

text \<open>
  The size \<open>0 BHK\<close> is not among the options of the size selector; for it the derived
  count would be \<open>null\<close>.
\<close>

lemma bedrooms_zero_bhk_is_null:
  "p_bedrooms (build_payload (initial_form\<lparr>size_ui := ''0 BHK''\<rparr>)) = Null"
  by (simp add: build_payload_def payload_bedrooms_def initial_form_def bedroomsFromSize_def
      digit_val_def is_digit_def is_space_def toLowerCase_def lower_char_def)

subsection \<open>Image staging\<close>

lemma validate_files_ok: "list_all acceptable fs \<Longrightarrow> validate_files fs = None"
  by (induction fs) (auto simp: acceptable_def is_image_def)

lemma validate_files_type:
  "list_all acceptable ok \<Longrightarrow> \<not> is_image bad \<Longrightarrow>
     validate_files (ok @ bad # rest) = Some ''Only image files are allowed''"
  by (induction ok) (auto simp: acceptable_def is_image_def)

lemma validate_files_size:
  "list_all acceptable ok \<Longrightarrow> is_image bad \<Longrightarrow> file_size bad > MAX_IMAGE_BYTES \<Longrightarrow>
     validate_files (ok @ bad # rest) = Some ''Image size must be less than 10MB''"
  by (induction ok) (auto simp: acceptable_def is_image_def)

lemma map_si_file_stage: "map si_file (stage_files fresh fs) = fs"
proof -
  have "map si_file (stage_files fresh fs) = map snd (enumerate 0 fs)"
    by (simp add: stage_files_def comp_def case_prod_beta)
  then show ?thesis by simp
qed

lemma edit_images_imageError: "edit_images (st\<lparr>al_imageError := m\<rparr>) = edit_images st"
  by (simp add: edit_images_def)

lemma edit_images_startEdit: "edit_images (startEdit listing st) = []"
  by (simp add: startEdit_def edit_images_def)

lemma existing_images_startEdit:
  "existing_images (startEdit listing st) = (case images listing of None \<Rightarrow> [] | Some imgs \<Rightarrow> imgs)"
  by (simp add: startEdit_def existing_images_def)

lemma edit_images_handleImageSelect:
  "edit_images (edit_handleImageSelect fresh files st) = edit_images st"
  by (simp add: edit_handleImageSelect_def edit_images_def Let_def split: option.splits)

lemma edit_images_step: "edit_images st = [] \<Longrightarrow> edit_images (edit_step st e) = []"
  by (cases e)
     (simp_all add: edit_images_startEdit edit_images_handleImageSelect,
      simp add: removeNewImage_def edit_images_def)

lemma edit_images_run: "edit_images st = [] \<Longrightarrow> edit_images (run_edit_events es st) = []"
  unfolding run_edit_events_def
  by (induction es arbitrary: st) (simp_all add: edit_images_step)

text \<open>
  Claim C5, as amended, for the handler of the new-listing form (\<open>st\<close>) and the one of
  the edit form (\<open>est\<close>). A selection that with the images already staged exceeds 10
  is rejected with the count message. A selection that with the existing and the
  staged images stays within 10 has its files checked in the order of the selection,
  the type of a file before its size, and the first check that fails decides: the type
  message if the first file that is not acceptable is not an image, the size message
  if it is an image above 10 MB. A rejection changes nothing but the message. If every
  file is acceptable, all of them are staged, in order, each with its preview. The
  new-listing form has no existing images. In the edit form the existing images are
  those of the listing under edit; the form object that \<open>startEdit\<close> builds has no
  \<open>images\<close> key, and nothing the user does in the dialog gives it one, which is the
  state of the edit form in the clauses below.
\<close>

theorem image_staging_first_violation:
  "(length files + length (nl_selectedImages st) > 10 \<longrightarrow>
      new_handleImageSelect fresh files st = st\<lparr>nl_imageError := ''Maximum 10 images allowed''\<rparr>)
   \<and> (length files + length (nl_selectedImages st) \<le> 10 \<and> files = ok @ bad # rest
        \<and> list_all acceptable ok \<and> \<not> is_image bad \<longrightarrow>
      new_handleImageSelect fresh files st = st\<lparr>nl_imageError := ''Only image files are allowed''\<rparr>)
   \<and> (length files + length (nl_selectedImages st) \<le> 10 \<and> files = ok @ bad # rest
        \<and> list_all acceptable ok \<and> is_image bad \<and> file_size bad > MAX_IMAGE_BYTES \<longrightarrow>
      new_handleImageSelect fresh files st = st\<lparr>nl_imageError := ''Image size must be less than 10MB''\<rparr>)
   \<and> (length files + length (nl_selectedImages st) \<le> 10 \<and> list_all acceptable files \<longrightarrow>
      new_handleImageSelect fresh files st =
        st\<lparr>nl_imageError := [], nl_selectedImages := nl_selectedImages st @ stage_files fresh files\<rparr>
      \<and> map si_file (stage_files fresh files) = files)
   \<and> (length files + length (al_selectedImages est) > 10 \<longrightarrow>
      edit_handleImageSelect fresh files est = est\<lparr>al_imageError := ''Maximum 10 images allowed''\<rparr>)
   \<and> (edit_images est = []
        \<and> length files + length (existing_images est) + length (al_selectedImages est) \<le> 10
        \<and> files = ok @ bad # rest \<and> list_all acceptable ok \<and> \<not> is_image bad \<longrightarrow>
      edit_handleImageSelect fresh files est = est\<lparr>al_imageError := ''Only image files are allowed''\<rparr>)
   \<and> (edit_images est = []
        \<and> length files + length (existing_images est) + length (al_selectedImages est) \<le> 10
        \<and> files = ok @ bad # rest \<and> list_all acceptable ok \<and> is_image bad
        \<and> file_size bad > MAX_IMAGE_BYTES \<longrightarrow>
      edit_handleImageSelect fresh files est = est\<lparr>al_imageError := ''Image size must be less than 10MB''\<rparr>)
   \<and> (edit_images est = []
        \<and> length files + length (existing_images est) + length (al_selectedImages est) \<le> 10
        \<and> list_all acceptable files \<longrightarrow>
      edit_handleImageSelect fresh files est =
        est\<lparr>al_imageError := [], al_selectedImages := al_selectedImages est @ stage_files fresh files\<rparr>)
   \<and> edit_images (run_edit_events es (startEdit listing est0)) = []
   \<and> existing_images (startEdit listing est0) = (case images listing of None \<Rightarrow> [] | Some imgs \<Rightarrow> imgs)"
proof -
  have n: "length files + length (nl_selectedImages st) > 10 \<longrightarrow>
      new_handleImageSelect fresh files st = st\<lparr>nl_imageError := ''Maximum 10 images allowed''\<rparr>"
    by (simp add: new_handleImageSelect_def Let_def)
  have t: "length files + length (nl_selectedImages st) \<le> 10 \<and> files = ok @ bad # rest
        \<and> list_all acceptable ok \<and> \<not> is_image bad \<longrightarrow>
      new_handleImageSelect fresh files st = st\<lparr>nl_imageError := ''Only image files are allowed''\<rparr>"
    by (auto simp: new_handleImageSelect_def Let_def validate_files_type)
  have s: "length files + length (nl_selectedImages st) \<le> 10 \<and> files = ok @ bad # rest
        \<and> list_all acceptable ok \<and> is_image bad \<and> file_size bad > MAX_IMAGE_BYTES \<longrightarrow>
      new_handleImageSelect fresh files st = st\<lparr>nl_imageError := ''Image size must be less than 10MB''\<rparr>"
    by (auto simp: new_handleImageSelect_def Let_def validate_files_size)
  have a: "length files + length (nl_selectedImages st) \<le> 10 \<and> list_all acceptable files \<longrightarrow>
      new_handleImageSelect fresh files st =
        st\<lparr>nl_imageError := [], nl_selectedImages := nl_selectedImages st @ stage_files fresh files\<rparr>
      \<and> map si_file (stage_files fresh files) = files"
    by (auto simp: new_handleImageSelect_def Let_def validate_files_ok map_si_file_stage)
  have n': "length files + length (al_selectedImages est) > 10 \<longrightarrow>
      edit_handleImageSelect fresh files est = est\<lparr>al_imageError := ''Maximum 10 images allowed''\<rparr>"
    by (simp add: edit_handleImageSelect_def Let_def)
  have t': "edit_images est = []
        \<and> length files + length (existing_images est) + length (al_selectedImages est) \<le> 10
        \<and> files = ok @ bad # rest \<and> list_all acceptable ok \<and> \<not> is_image bad \<longrightarrow>
      edit_handleImageSelect fresh files est = est\<lparr>al_imageError := ''Only image files are allowed''\<rparr>"
    by (auto simp: edit_handleImageSelect_def Let_def validate_files_type edit_images_imageError)
  have s': "edit_images est = []
        \<and> length files + length (existing_images est) + length (al_selectedImages est) \<le> 10
        \<and> files = ok @ bad # rest \<and> list_all acceptable ok \<and> is_image bad
        \<and> file_size bad > MAX_IMAGE_BYTES \<longrightarrow>
      edit_handleImageSelect fresh files est = est\<lparr>al_imageError := ''Image size must be less than 10MB''\<rparr>"
    by (auto simp: edit_handleImageSelect_def Let_def validate_files_size edit_images_imageError)
  have a': "edit_images est = []
        \<and> length files + length (existing_images est) + length (al_selectedImages est) \<le> 10
        \<and> list_all acceptable files \<longrightarrow>
      edit_handleImageSelect fresh files est =
        est\<lparr>al_imageError := [], al_selectedImages := al_selectedImages est @ stage_files fresh files\<rparr>"
    by (auto simp: edit_handleImageSelect_def Let_def validate_files_ok edit_images_imageError)
  have r: "edit_images (run_edit_events es (startEdit listing est0)) = []"
    by (simp add: edit_images_run edit_images_startEdit)
  from n t s a n' t' s' a' r existing_images_startEdit [of listing est0] show ?thesis by blast
qed

text \<open>
  On the empty new-listing form: a PNG followed by a PDF is rejected for its type, a
  PNG of 11 MB for its size, and a single small PNG is staged with its preview. In the
  edit dialog opened on a listing with two images, a small PNG is staged as well.
\<close>

theorem image_staging_first_violation_witness:
  "new_handleImageSelect counter_fresh [png_small, pdf_small] initial_new_listing_state
     = initial_new_listing_state\<lparr>nl_imageError := ''Only image files are allowed''\<rparr>
   \<and> new_handleImageSelect counter_fresh [png_small, png_big] initial_new_listing_state
     = initial_new_listing_state\<lparr>nl_imageError := ''Image size must be less than 10MB''\<rparr>
   \<and> new_handleImageSelect counter_fresh [png_small] initial_new_listing_state
     = initial_new_listing_state
         \<lparr>nl_selectedImages := [\<lparr>si_file = png_small, si_preview = ''blob:preview-0'', si_id = ''id0''\<rparr>]\<rparr>
   \<and> length (existing_images (startEdit prop_metro initial_admin_listings_state)) = 2
   \<and> edit_handleImageSelect counter_fresh [png_small] (startEdit prop_metro initial_admin_listings_state)
     = (startEdit prop_metro initial_admin_listings_state)
         \<lparr>al_selectedImages := [\<lparr>si_file = png_small, si_preview = ''blob:preview-0'', si_id = ''id0''\<rparr>]\<rparr>
   \<and> edit_handleImageSelect counter_fresh [png_small, pdf_small] (startEdit prop_metro initial_admin_listings_state)
     = (startEdit prop_metro initial_admin_listings_state)
         \<lparr>al_imageError := ''Only image files are allowed''\<rparr>"
proof -
  let ?e = "startEdit prop_metro initial_admin_listings_state"
  have ok: "acceptable png_small" "list_all acceptable [png_small]" "\<not> is_image pdf_small"
    "is_image png_big" "file_size png_big > MAX_IMAGE_BYTES"
    by (simp_all add: acceptable_def is_image_def png_small_def pdf_small_def png_big_def
        startsWith_def MAX_IMAGE_BYTES_def)
  have c: "length (nl_selectedImages initial_new_listing_state) = 0"
    "nl_imageError initial_new_listing_state = []"
    by (simp_all add: initial_new_listing_state_def)
  have ce: "edit_images ?e = []" "length (existing_images ?e) = 2" "al_selectedImages ?e = []"
    "al_imageError ?e = []"
    by (simp_all add: startEdit_def edit_images_def existing_images_def prop_metro_def)
  have f: "stage_files counter_fresh [png_small]
             = [\<lparr>si_file = png_small, si_preview = ''blob:preview-0'', si_id = ''id0''\<rparr>]"
    by (simp add: stage_files_def counter_fresh_def string_of_nat.simps digit_char_def)
  have 1: "new_handleImageSelect counter_fresh [png_small, pdf_small] initial_new_listing_state
     = initial_new_listing_state\<lparr>nl_imageError := ''Only image files are allowed''\<rparr>"
    using image_staging_first_violation
      [where files = "[png_small, pdf_small]" and st = initial_new_listing_state
         and fresh = counter_fresh and ok = "[png_small]" and bad = pdf_small and rest = "[]"] ok c
    by simp
  have 2: "new_handleImageSelect counter_fresh [png_small, png_big] initial_new_listing_state
     = initial_new_listing_state\<lparr>nl_imageError := ''Image size must be less than 10MB''\<rparr>"
    using image_staging_first_violation
      [where files = "[png_small, png_big]" and st = initial_new_listing_state
         and fresh = counter_fresh and ok = "[png_small]" and bad = png_big and rest = "[]"] ok c
    by simp
  have 3: "new_handleImageSelect counter_fresh [png_small] initial_new_listing_state
     = initial_new_listing_state
         \<lparr>nl_selectedImages := [\<lparr>si_file = png_small, si_preview = ''blob:preview-0'', si_id = ''id0''\<rparr>]\<rparr>"
    using image_staging_first_violation
      [where files = "[png_small]" and st = initial_new_listing_state and fresh = counter_fresh] ok c
    by (simp add: f initial_new_listing_state_def)
  have 4: "edit_handleImageSelect counter_fresh [png_small] ?e
     = ?e\<lparr>al_selectedImages := [\<lparr>si_file = png_small, si_preview = ''blob:preview-0'', si_id = ''id0''\<rparr>]\<rparr>"
    using image_staging_first_violation
      [where files = "[png_small]" and est = ?e and fresh = counter_fresh] ok ce
    by (simp add: f startEdit_def)
  have 5: "edit_handleImageSelect counter_fresh [png_small, pdf_small] ?e
     = ?e\<lparr>al_imageError := ''Only image files are allowed''\<rparr>"
    using image_staging_first_violation
      [where files = "[png_small, pdf_small]" and est = ?e and fresh = counter_fresh
         and ok = "[png_small]" and bad = pdf_small and rest = "[]"] ok ce
    by simp
  from 1 2 3 4 5 ce(2) show ?thesis by blast
qed

text \<open>
  What the clauses above leave open for the edit form: on a listing that has nine
  images, a selection of two more is staged, since the count of the handler reads the
  \<open>images\<close> key that the form does not have.
\<close>

lemma edit_form_ignores_existing_images:
  "length (existing_images (startEdit prop_gallery initial_admin_listings_state)) = 9
   \<and> al_imageError (edit_handleImageSelect counter_fresh [png_small, png_small]
        (startEdit prop_gallery initial_admin_listings_state)) = []
   \<and> length (al_selectedImages (edit_handleImageSelect counter_fresh [png_small, png_small]
        (startEdit prop_gallery initial_admin_listings_state))) = 2"
  by (simp add: edit_handleImageSelect_def startEdit_def edit_images_def existing_images_def
      prop_gallery_def prop_metro_def initial_admin_listings_state_def png_small_def startsWith_def
      MAX_IMAGE_BYTES_def stage_files_def Let_def)

text \<open>
  Against claim C5 as stated: a selection of an 11 MB PNG followed by a PDF holds a
  file that is not an image, and is rejected with the size message.
\<close>

theorem image_staging_size_before_type:
  "\<not> is_image pdf_small
   \<and> nl_imageError (new_handleImageSelect counter_fresh [png_big, pdf_small] initial_new_listing_state)
       = ''Image size must be less than 10MB''"
  by (simp add: new_handleImageSelect_def initial_new_listing_state_def png_big_def pdf_small_def
      startsWith_def MAX_IMAGE_BYTES_def is_image_def)

subsection \<open>Image upload after a saved record\<close>

lemma submit_no_delete: "list_all (\<lambda>r. \<not> is_delete r) (snd (submit token cr ur pr st))"
  by (auto simp: submit_def Let_def is_delete_def split: sum.splits if_splits prod.splits)

lemma updateListing_no_delete:
  "list_all (\<lambda>r. \<not> is_delete r) (snd (updateListing token ur pub pr rr st))"
  by (auto simp: updateListing_def fetchListings_def Let_def is_delete_def
      split: sum.splits if_splits prod.splits option.splits)

lemma submit_partial_success:
  assumes "nl_selectedImages st \<noteq> []"
  shows "nl_error (fst (submit token (Inr cid) (Inl ()) put_res st))
           = ''Property created but image upload failed. You can add images later by editing the property.''
         \<and> nl_success (fst (submit token (Inr cid) (Inl ()) put_res st)) = ''Listing created with ID: '' @ cid
         \<and> length (snd (submit token (Inr cid) (Inl ()) put_res st)) = 2"
  using assms
  by (simp add: submit_def Let_def created_message_def)

lemma update_message_lost:
  assumes "editingListing st = Some listing" and "al_selectedImages st \<noteq> []"
  shows "al_error (fst (updateListing (Some (t # ts)) (Inl ()) pub (Inr ()) (Inr d) st)) = []"
  using assms
  by (simp add: updateListing_def fetchListings_def Let_def or_else_def)

text \<open>
  Claim C6, evaluated on the code. Neither \<open>submit\<close> nor \<open>updateListing\<close> ever issues a
  DELETE (\<open>submit_no_delete\<close>, \<open>updateListing_no_delete\<close>), and after a failed upload the
  new-listing form ends with its partial-success message (\<open>submit_partial_success\<close>).
  In \<open>updateListing\<close> the message is set when the upload fails, but the refresh of the
  list that follows the successful PUT clears the error again: with one image staged,
  a token, a failed upload, a successful PUT and a successful refresh, the requests are
  the upload, the PUT and the GET, and the error shown at the end is empty.
\<close>

theorem update_upload_failure_message_cleared:
  "al_error (fst (updateListing (Some ''token'') (Inl ()) (Inr ()) (Inr ()) (Inr (Some [prop_metro])) example_edit)) = []
   \<and> snd (updateListing (Some ''token'') (Inl ()) (Inr ()) (Inr ()) (Inr (Some [prop_metro])) example_edit)
       = [Upload ''/images/upload/p1'' [''room.png''], Request PUT ''/properties/p1'' True,
          Request GET ''/properties/'' False]"
  by (simp add: updateListing_def fetchListings_def Let_def or_else_def example_edit_def
      initial_admin_listings_state_def prop_metro_def getCorrectId_def idMapping_def png_small_def
      encodeURIComponent_def unreserved_def)

end
